theory Spec2Isabelle
  imports Complex_Main
begin

section \<open>JavaScript numbers and the conversions the handlers use\<close>

text \<open>
  A JavaScript number is NaN, an infinity or a finite value. Finite values are kept as
  exact rationals: the handlers only add, multiply, divide and round page numbers, limits
  and row counts, and none of the statements below depends on the rounding of IEEE
  doubles beyond \<open>2^53\<close>. Signed zero is not distinguished.
\<close>

datatype jsnum = NaN | Num rat | PosInfinity | NegInfinity

definition isFinite :: "jsnum \<Rightarrow> bool" where
  "isFinite x = (case x of Num _ \<Rightarrow> True | _ \<Rightarrow> False)"

text \<open>Truthiness of a number, as \<open>x || d\<close> tests it: NaN and 0 are falsy.\<close>

definition js_or :: "jsnum \<Rightarrow> jsnum \<Rightarrow> jsnum" where
  "js_or x d = (case x of NaN \<Rightarrow> d | Num r \<Rightarrow> (if r = 0 then d else x) | _ \<Rightarrow> x)"

fun js_le :: "jsnum \<Rightarrow> jsnum \<Rightarrow> bool" where
  "js_le NaN _ = False"
| "js_le _ NaN = False"
| "js_le NegInfinity _ = True"
| "js_le _ PosInfinity = True"
| "js_le (Num a) (Num b) = (a \<le> b)"
| "js_le PosInfinity _ = False"
| "js_le _ NegInfinity = False"

definition Math_max :: "jsnum \<Rightarrow> jsnum \<Rightarrow> jsnum" where
  "Math_max a b = (if a = NaN \<or> b = NaN then NaN else if js_le a b then b else a)"

definition Math_min :: "jsnum \<Rightarrow> jsnum \<Rightarrow> jsnum" where
  "Math_min a b = (if a = NaN \<or> b = NaN then NaN else if js_le a b then a else b)"

fun js_sub :: "jsnum \<Rightarrow> jsnum \<Rightarrow> jsnum" where
  "js_sub NaN _ = NaN"
| "js_sub _ NaN = NaN"
| "js_sub (Num a) (Num b) = Num (a - b)"
| "js_sub PosInfinity PosInfinity = NaN"
| "js_sub NegInfinity NegInfinity = NaN"
| "js_sub PosInfinity _ = PosInfinity"
| "js_sub NegInfinity _ = NegInfinity"
| "js_sub _ PosInfinity = NegInfinity"
| "js_sub _ NegInfinity = PosInfinity"

definition js_neg :: "jsnum \<Rightarrow> jsnum" where
  "js_neg x = (case x of NaN \<Rightarrow> NaN | Num r \<Rightarrow> Num (- r)
     | PosInfinity \<Rightarrow> NegInfinity | NegInfinity \<Rightarrow> PosInfinity)"

text \<open>The sign of an operand of a product or quotient with an infinity.\<close>

definition signed_inf :: "bool \<Rightarrow> jsnum" where
  "signed_inf positive = (if positive then PosInfinity else NegInfinity)"

fun js_mul :: "jsnum \<Rightarrow> jsnum \<Rightarrow> jsnum" where
  "js_mul NaN _ = NaN"
| "js_mul _ NaN = NaN"
| "js_mul (Num a) (Num b) = Num (a * b)"
| "js_mul (Num a) PosInfinity = (if a = 0 then NaN else signed_inf (0 < a))"
| "js_mul (Num a) NegInfinity = (if a = 0 then NaN else signed_inf (a < 0))"
| "js_mul PosInfinity (Num b) = (if b = 0 then NaN else signed_inf (0 < b))"
| "js_mul NegInfinity (Num b) = (if b = 0 then NaN else signed_inf (b < 0))"
| "js_mul PosInfinity PosInfinity = PosInfinity"
| "js_mul NegInfinity NegInfinity = PosInfinity"
| "js_mul PosInfinity NegInfinity = NegInfinity"
| "js_mul NegInfinity PosInfinity = NegInfinity"

fun js_div :: "jsnum \<Rightarrow> jsnum \<Rightarrow> jsnum" where
  "js_div NaN _ = NaN"
| "js_div _ NaN = NaN"
| "js_div (Num a) (Num b) =
     (if b = 0 then (if a = 0 then NaN else signed_inf (0 < a)) else Num (a / b))"
| "js_div (Num a) _ = Num 0"
| "js_div PosInfinity (Num b) = signed_inf (0 \<le> b)"
| "js_div NegInfinity (Num b) = signed_inf (b < 0)"
| "js_div _ _ = NaN"

definition Math_ceil :: "jsnum \<Rightarrow> jsnum" where
  "Math_ceil x = (case x of Num r \<Rightarrow> Num (of_int \<lceil>r\<rceil>) | _ \<Rightarrow> x)"

subsection \<open>Strings to numbers\<close>

definition is_ws :: "char \<Rightarrow> bool" where
  "is_ws c = (c \<in> set [CHR 0x20, CHR 0x09, CHR 0x0A, CHR 0x0B, CHR 0x0C, CHR 0x0D])"

definition trim :: "string \<Rightarrow> string" where
  "trim s = rev (dropWhile is_ws (rev (dropWhile is_ws s)))"

definition is_digit :: "char \<Rightarrow> bool" where
  "is_digit c = (48 \<le> (of_char c :: int) \<and> (of_char c :: int) \<le> 57)"

definition digit_val :: "char \<Rightarrow> int" where
  "digit_val c =
     (let n = (of_char c :: int) in
      if 48 \<le> n \<and> n \<le> 57 then n - 48
      else if 97 \<le> n \<and> n \<le> 122 then n - 87
      else if 65 \<le> n \<and> n \<le> 90 then n - 55
      else 36)"

definition digits_val :: "int \<Rightarrow> string \<Rightarrow> int" where
  "digits_val radix ds = foldl (\<lambda>a c. radix * a + digit_val c) 0 ds"

text \<open>
  \<open>parseInt(s, 10)\<close>: leading white space is skipped, a sign is read, then the longest
  prefix of decimal digits; no digit at all gives NaN.
\<close>

definition parseInt :: "string \<Rightarrow> jsnum" where
  "parseInt s =
     (let t = dropWhile is_ws s;
          negative = (case t of c # _ \<Rightarrow> c = CHR ''-'' | [] \<Rightarrow> False);
          r = (case t of c # cs \<Rightarrow> (if c = CHR ''+'' \<or> c = CHR ''-'' then cs else t) | [] \<Rightarrow> t);
          ds = takeWhile is_digit r
      in if ds = [] then NaN
         else Num (if negative then - of_int (digits_val 10 ds)
                 else of_int (digits_val 10 ds)))"

text \<open>
  \<open>Number(s)\<close> and unary \<open>+s\<close> on a string (StringToNumber): the whole trimmed
  string must be a numeric literal; the empty string is 0.
\<close>

definition exponent_part :: "string \<Rightarrow> int option" where
  "exponent_part s =
     (case s of
        [] \<Rightarrow> Some 0
      | c # r \<Rightarrow>
          (if c = CHR ''e'' \<or> c = CHR ''E'' then
             (let negative = (case r of d # _ \<Rightarrow> d = CHR ''-'' | [] \<Rightarrow> False);
                  ds = (case r of d # t \<Rightarrow> (if d = CHR ''+'' \<or> d = CHR ''-'' then t else r) | [] \<Rightarrow> r)
              in if ds \<noteq> [] \<and> list_all is_digit ds
                 then Some (if negative then - digits_val 10 ds else digits_val 10 ds)
                 else None)
           else None))"

definition unsigned_decimal :: "string \<Rightarrow> jsnum" where
  "unsigned_decimal s =
     (if s = ''Infinity'' then PosInfinity
      else
        (let ip = takeWhile is_digit s;
             r1 = dropWhile is_digit s;
             dotted = (case r1 of c # _ \<Rightarrow> c = CHR ''.'' | [] \<Rightarrow> False);
             fp = (if dotted then takeWhile is_digit (tl r1) else []);
             r2 = (if dotted then dropWhile is_digit (tl r1) else r1)
         in if ip = [] \<and> fp = [] then NaN
            else (case exponent_part r2 of
                    None \<Rightarrow> NaN
                  | Some e \<Rightarrow>
                      Num (of_int (digits_val 10 (ip @ fp)) / 10 ^ length fp
                           * (if 0 \<le> e then 10 ^ nat e else 1 / 10 ^ nat (- e))))))"

definition radix_literal :: "string \<Rightarrow> jsnum option" where
  "radix_literal s =
     (case s of
        z # x # ds \<Rightarrow>
          (let radix = (if x = CHR ''x'' \<or> x = CHR ''X'' then 16
                        else if x = CHR ''o'' \<or> x = CHR ''O'' then 8
                        else if x = CHR ''b'' \<or> x = CHR ''B'' then 2 else 0)
           in if z = CHR ''0'' \<and> radix \<noteq> 0 then
                Some (if ds \<noteq> [] \<and> list_all (\<lambda>c. digit_val c < radix) ds
                      then Num (of_int (digits_val radix ds)) else NaN)
              else None)
      | _ \<Rightarrow> None)"

definition Number :: "string \<Rightarrow> jsnum" where
  "Number s =
     (let t = trim s in
      if t = [] then Num 0
      else (case radix_literal t of
              Some n \<Rightarrow> n
            | None \<Rightarrow>
                (case t of
                   c # r \<Rightarrow>
                     (if c = CHR ''+'' then unsigned_decimal r
                      else if c = CHR ''-'' then js_neg (unsigned_decimal r)
                      else unsigned_decimal t)
                 | [] \<Rightarrow> Num 0)))"

section \<open>Pagination parameters\<close>

text \<open>
  A query parameter is absent (\<open>None\<close>) or a string. The handlers destructure
  \<open>page = 1, limit = 10\<close>, so an absent parameter is the number 1 or 10.

  \<open>GET /subjects\<close> and \<open>GET /users\<close> normalise with
  \<open>Math.max(1, parseInt(String(page), 10) || 1)\<close> and
  \<open>Math.min(Math.max(1, parseInt(String(limit), 10) || 10), 100)\<close>.
\<close>

definition currentPage_parsed :: "string option \<Rightarrow> jsnum" where
  "currentPage_parsed page =
     Math_max (Num 1) (js_or (parseInt (case page of None \<Rightarrow> ''1'' | Some s \<Rightarrow> s)) (Num 1))"

definition limitPerPage_parsed :: "string option \<Rightarrow> jsnum" where
  "limitPerPage_parsed limit =
     Math_min
       (Math_max (Num 1) (js_or (parseInt (case limit of None \<Rightarrow> ''10'' | Some s \<Rightarrow> s)) (Num 10)))
       (Num 100)"

text \<open>
  Every other listing (\<open>GET /classes\<close>, \<open>GET /departments\<close>,
  \<open>GET /subjects/:id/classes\<close>, \<open>GET /subjects/:id/users\<close>,
  \<open>GET /users/:id/departments\<close>, \<open>GET /users/:id/subjects\<close>) normalises with
  \<open>Math.max(1, +page)\<close> and \<open>Math.max(1, +limit)\<close>.
\<close>

definition currentPage_plus :: "string option \<Rightarrow> jsnum" where
  "currentPage_plus page = Math_max (Num 1) (case page of None \<Rightarrow> Num 1 | Some s \<Rightarrow> Number s)"

definition limitPerPage_plus :: "string option \<Rightarrow> jsnum" where
  "limitPerPage_plus limit = Math_max (Num 1) (case limit of None \<Rightarrow> Num 10 | Some s \<Rightarrow> Number s)"

text \<open>\<open>offset = (currentPage - 1) * limitPerPage\<close>, in every listing.\<close>

definition offset_of :: "jsnum \<Rightarrow> jsnum \<Rightarrow> jsnum" where
  "offset_of currentPage limitPerPage = js_mul (js_sub currentPage (Num 1)) limitPerPage"

section \<open>Pattern text\<close>

text \<open>
  The scope filters (\<open>department\<close>, \<open>subject\<close>, \<open>teacher\<close>) are embedded as
  \<open>String(x).replace(/[%_]/g, "\\$&")\<close>: every \<open>%\<close> and \<open>_\<close> gets a backslash in
  front of it. Nothing else is changed; a backslash of the input stays as it is.
\<close>

fun replace_wildcards :: "string \<Rightarrow> string" where
  "replace_wildcards [] = []"
| "replace_wildcards (c # cs) =
     (if c = CHR ''%'' \<or> c = CHR ''_'' then CHR 0x5C # c # replace_wildcards cs
      else c # replace_wildcards cs)"

text \<open>The template literal \<open>`%${x}%`\<close>.\<close>

definition contains_pattern :: "string \<Rightarrow> string" where
  "contains_pattern x = ''%'' @ x @ ''%''"

text \<open>
  The storage engine's \<open>LIKE\<close>: \<open>%\<close> matches any run of characters, \<open>_\<close> exactly one
  character, and a backslash makes the next pattern character literal. A pattern that
  ends in a lone backslash matches nothing here.
\<close>

fun like :: "string \<Rightarrow> string \<Rightarrow> bool" where
  "like [] s = (s = [])"
| "like (p # ps) s =
     (if p = CHR ''%'' then
        (like ps s \<or> (case s of [] \<Rightarrow> False | _ # t \<Rightarrow> like (p # ps) t))
      else if p = CHR ''_'' then
        (case s of [] \<Rightarrow> False | _ # t \<Rightarrow> like ps t)
      else if p = CHR 0x5C then
        (case ps of
           [] \<Rightarrow> False
         | q # qs \<Rightarrow> (case s of [] \<Rightarrow> False | c # t \<Rightarrow> c = q \<and> like qs t))
      else (case s of [] \<Rightarrow> False | c # t \<Rightarrow> c = p \<and> like ps t))"

definition to_lower :: "char \<Rightarrow> char" where
  "to_lower c =
     (if 65 \<le> (of_char c :: int) \<and> (of_char c :: int) \<le> 90
      then char_of ((of_char c :: int) + 32) else c)"

section \<open>Stored data and queries\<close>

datatype tbl = departments | subjects | classes | enrollments | user

datatype jsval =
    JNull | JBool bool | JNum jsnum | JStr string
  | JArr "jsval list" | JObj "(string \<times> jsval) list"

text \<open>
  A stored value. A timestamp is \<open>VInt\<close>, the time in milliseconds; a JSON column
  (\<open>schedules\<close>) is \<open>VText\<close>, the document's text.
\<close>

datatype val = VNull | VInt int | VText string | VBool bool

type_synonym col = "tbl \<times> string"

text \<open>A value the handler binds into a query: a JavaScript number or string.\<close>

datatype lit = LNum jsnum | LStr string

datatype cond =
    Eq col lit
  | EqCol col col
  | ILike col string
  | And "cond list"
  | Or "cond list"

datatype sel = Col col | CountStar | Count col | CountDistinct col

text \<open>
  What the query builder is given: \<open>select\<close>, \<open>from\<close>, each \<open>leftJoin\<close>,
  \<open>where\<close>, \<open>groupBy\<close>, \<open>orderBy\<close> (every key of the source is \<open>desc\<close>),
  \<open>limit\<close> and \<open>offset\<close>.
\<close>

record query =
  q_select :: "(string \<times> sel) list"
  q_from :: tbl
  q_joins :: "(tbl \<times> cond) list"
  q_where :: "cond option"
  q_groupBy :: "col list"
  q_orderBy :: "col list"
  q_limit :: "jsnum option"
  q_offset :: "jsnum option"

text \<open>
  Modelled from the spec: the schema module \<open>db/schema\<close> is not among the source files.
  The columns are those of the spec's data model, with the names the handlers use
  (\<open>groupBy\<close> lists of \<open>/users/:id/subjects\<close> and \<open>/users/:id/departments\<close>,
  \<open>baseSelect\<close> of \<open>/subjects/:id/users\<close>, the joins' keys).
\<close>

fun getTableColumns :: "tbl \<Rightarrow> string list" where
  "getTableColumns departments =
     [''id'', ''code'', ''name'', ''description'', ''createdAt'', ''updatedAt'']"
| "getTableColumns subjects =
     [''id'', ''departmentId'', ''name'', ''code'', ''description'', ''createdAt'', ''updatedAt'']"
| "getTableColumns classes =
     [''id'', ''subjectId'', ''teacherId'', ''name'', ''inviteCode'', ''schedules'',
      ''createdAt'', ''updatedAt'']"
| "getTableColumns enrollments = [''studentId'', ''classId'']"
| "getTableColumns user =
     [''id'', ''name'', ''email'', ''emailVerified'', ''image'', ''role'', ''imageCldPubId'',
      ''createdAt'', ''updatedAt'']"

text \<open>\<open>...getTableColumns(t)\<close> at the top of a selection, and nested under a key.\<close>

definition columns_of :: "tbl \<Rightarrow> (string \<times> sel) list" where
  "columns_of t = map (\<lambda>c. (c, Col (t, c))) (getTableColumns t)"

definition nested :: "string \<Rightarrow> tbl \<Rightarrow> (string \<times> sel) list" where
  "nested key t = map (\<lambda>c. (key @ ''.'' @ c, Col (t, c))) (getTableColumns t)"

subsection \<open>The storage engine\<close>

text \<open>
  The relational engine is outside the repository; this is its standard reading of the
  queries above. A table is a list of rows, a row a list of named values. A joined row
  names each value by table and column. Comparisons with \<open>NULL\<close> are not true; since
  the conditions have no negation, \<open>WHERE\<close> and \<open>ON\<close> keep exactly the rows on which the
  condition is true.
\<close>

type_synonym trow = "(string \<times> val) list"
type_synonym database = "tbl \<Rightarrow> trow list"
type_synonym jrow = "(col \<times> val) list"

datatype dberror = DbError string

definition cell :: "jrow \<Rightarrow> col \<Rightarrow> val" where
  "cell e c = (case map_of e c of Some v \<Rightarrow> v | None \<Rightarrow> VNull)"

definition qualify :: "tbl \<Rightarrow> trow \<Rightarrow> jrow" where
  "qualify t r = map (\<lambda>(c, v). ((t, c), v)) r"

definition null_row :: "tbl \<Rightarrow> jrow" where
  "null_row t = map (\<lambda>c. ((t, c), VNull)) (getTableColumns t)"

fun val_eq_lit :: "val \<Rightarrow> lit \<Rightarrow> bool" where
  "val_eq_lit (VInt i) (LNum (Num r)) = (of_int i = r)"
| "val_eq_lit (VText s) (LStr t) = (s = t)"
| "val_eq_lit _ _ = False"

fun holds :: "jrow \<Rightarrow> cond \<Rightarrow> bool" where
  "holds e (Eq c l) = val_eq_lit (cell e c) l"
| "holds e (EqCol a b) = (cell e a \<noteq> VNull \<and> cell e a = cell e b)"
| "holds e (ILike c p) =
     (case cell e c of VText s \<Rightarrow> like (map to_lower p) (map to_lower s) | _ \<Rightarrow> False)"
| "holds e (And cs) = list_all (holds e) cs"
| "holds e (Or cs) = list_ex (holds e) cs"

text \<open>The tables a condition or a selected expression names.\<close>

fun cond_tables :: "cond \<Rightarrow> tbl list" where
  "cond_tables (Eq c _) = [fst c]"
| "cond_tables (EqCol a b) = [fst a, fst b]"
| "cond_tables (ILike c _) = [fst c]"
| "cond_tables (And cs) = concat (map cond_tables cs)"
| "cond_tables (Or cs) = concat (map cond_tables cs)"

fun sel_tables :: "sel \<Rightarrow> tbl list" where
  "sel_tables (Col c) = [fst c]"
| "sel_tables CountStar = []"
| "sel_tables (Count c) = [fst c]"
| "sel_tables (CountDistinct c) = [fst c]"

text \<open>
  The engine rejects a query that names a table twice in \<open>FROM\<close>, or whose \<open>ON\<close>
  condition, selection or clauses name a table that is not in scope.
\<close>

fun joins_scoped :: "tbl list \<Rightarrow> (tbl \<times> cond) list \<Rightarrow> bool" where
  "joins_scoped scope [] = True"
| "joins_scoped scope ((t, on) # js) =
     (t \<notin> set scope \<and> list_all (\<lambda>x. x \<in> set (t # scope)) (cond_tables on)
      \<and> joins_scoped (t # scope) js)"

definition well_scoped :: "query \<Rightarrow> bool" where
  "well_scoped q =
     (let scope = q_from q # map fst (q_joins q) in
      joins_scoped [q_from q] (q_joins q)
      \<and> list_all (\<lambda>x. x \<in> set scope)
          (concat (map (sel_tables \<circ> snd) (q_select q))
           @ (case q_where q of None \<Rightarrow> [] | Some c \<Rightarrow> cond_tables c)
           @ map fst (q_groupBy q) @ map fst (q_orderBy q)))"

definition left_join :: "database \<Rightarrow> jrow list \<Rightarrow> tbl \<times> cond \<Rightarrow> jrow list" where
  "left_join db rows j =
     concat (map (\<lambda>e.
        (let ms = filter (\<lambda>r. holds (e @ qualify (fst j) r) (snd j)) (db (fst j)) in
         if ms = [] then [e @ null_row (fst j)]
         else map (\<lambda>r. e @ qualify (fst j) r) ms)) rows)"

text \<open>Groups, in the order of each key's first row.\<close>

function group_rows :: "('a \<Rightarrow> val list) \<Rightarrow> 'a list \<Rightarrow> 'a list list" where
  "group_rows key [] = []"
| "group_rows key (e # es) =
     (e # filter (\<lambda>x. key x = key e) es) # group_rows key (filter (\<lambda>x. key x \<noteq> key e) es)"
  by pat_completeness auto
termination
  by (relation "measure (\<lambda>(key, es). length es)") (auto simp: less_Suc_eq_le)

definition eval_sel :: "jrow list \<Rightarrow> sel \<Rightarrow> val" where
  "eval_sel g s =
     (case s of
        Col c \<Rightarrow> (case g of [] \<Rightarrow> VNull | e # _ \<Rightarrow> cell e c)
      | CountStar \<Rightarrow> VInt (int (length g))
      | Count c \<Rightarrow> VInt (int (length (filter (\<lambda>e. cell e c \<noteq> VNull) g)))
      | CountDistinct c \<Rightarrow>
          VInt (int (length (remdups (filter (\<lambda>v. v \<noteq> VNull) (map (\<lambda>e. cell e c) g))))))"

definition has_aggregate :: "query \<Rightarrow> bool" where
  "has_aggregate q = list_ex (\<lambda>ls. case snd ls of Col _ \<Rightarrow> False | _ \<Rightarrow> True) (q_select q)"

text \<open>
  Ordering. The keys of the source are integer ids and timestamps; \<open>NULL\<close> sorts as the
  largest value. Rows that agree on every key stay in the order the engine produced
  them: the query says nothing about them.
\<close>

fun val_lt :: "val \<Rightarrow> val \<Rightarrow> bool" where
  "val_lt (VInt a) (VInt b) = (a < b)"
| "val_lt (VInt a) VNull = True"
| "val_lt _ _ = False"

fun keys_before :: "val list \<Rightarrow> val list \<Rightarrow> bool" where
  "keys_before (a # as) (b # bs) = (val_lt b a \<or> (\<not> val_lt a b \<and> keys_before as bs))"
| "keys_before _ _ = False"

fun insert_desc :: "('a \<Rightarrow> val list) \<Rightarrow> 'a \<Rightarrow> 'a list \<Rightarrow> 'a list" where
  "insert_desc k x [] = [x]"
| "insert_desc k x (y # ys) =
     (if keys_before (k y) (k x) then y # insert_desc k x ys else x # y # ys)"

definition sort_desc :: "('a \<Rightarrow> val list) \<Rightarrow> 'a list \<Rightarrow> 'a list" where
  "sort_desc k xs = foldr (insert_desc k) xs []"

text \<open>\<open>LIMIT\<close> and \<open>OFFSET\<close> take a non-negative whole number.\<close>

definition row_bound :: "jsnum \<Rightarrow> nat option" where
  "row_bound x =
     (case x of
        Num r \<Rightarrow> (if 0 \<le> r \<and> of_int \<lfloor>r\<rfloor> = r then Some (nat \<lfloor>r\<rfloor>) else None)
      | _ \<Rightarrow> None)"

definition bounds_ok :: "query \<Rightarrow> bool" where
  "bounds_ok q =
     ((case q_limit q of None \<Rightarrow> True | Some x \<Rightarrow> row_bound x \<noteq> None)
      \<and> (case q_offset q of None \<Rightarrow> True | Some x \<Rightarrow> row_bound x \<noteq> None))"

definition paginate :: "query \<Rightarrow> 'a list \<Rightarrow> 'a list" where
  "paginate q xs =
     (let dropped = (case q_offset q of
                       None \<Rightarrow> xs
                     | Some x \<Rightarrow> (case row_bound x of Some n \<Rightarrow> drop n xs | None \<Rightarrow> xs))
      in case q_limit q of
           None \<Rightarrow> dropped
         | Some x \<Rightarrow> (case row_bound x of Some n \<Rightarrow> take n dropped | None \<Rightarrow> dropped))"

type_synonym orow = "(string \<times> val) list"

definition matching_rows :: "database \<Rightarrow> query \<Rightarrow> jrow list" where
  "matching_rows db q =
     (let joined = foldl (left_join db) (map (qualify (q_from q)) (db (q_from q))) (q_joins q)
      in case q_where q of None \<Rightarrow> joined | Some c \<Rightarrow> filter (\<lambda>e. holds e c) joined)"

definition grouped :: "query \<Rightarrow> jrow list \<Rightarrow> jrow list list" where
  "grouped q kept =
     (if q_groupBy q \<noteq> [] then group_rows (\<lambda>e. map (cell e) (q_groupBy q)) kept
      else if has_aggregate q then [kept]
      else map (\<lambda>e. [e]) kept)"

definition exec :: "database \<Rightarrow> query \<Rightarrow> dberror + orow list" where
  "exec db q =
     (if \<not> well_scoped q then Inl (DbError ''invalid reference to a table'')
      else if \<not> bounds_ok q then Inl (DbError ''invalid LIMIT or OFFSET'')
      else
        (let groups = grouped q (matching_rows db q);
             ordered = sort_desc (\<lambda>g. map (\<lambda>c. eval_sel g (Col c)) (q_orderBy q)) groups
         in Inr (map (\<lambda>g. map (\<lambda>ls. (fst ls, eval_sel g (snd ls))) (q_select q))
                   (paginate q ordered))))"

section \<open>Requests, responses and the shared steps of a handler\<close>

text \<open>
  A request: the path parameter \<open>req.params.id\<close>, the query parameters the handlers
  destructure from \<open>req.query\<close> (each absent or a string) and the JSON object
  \<open>req.body\<close>.
\<close>

record request =
  r_id :: string
  r_search :: "string option"
  r_department :: "string option"
  r_subject :: "string option"
  r_teacher :: "string option"
  r_role :: "string option"
  r_page :: "string option"
  r_limit :: "string option"
  r_body :: "string \<rightharpoonup> jsval"

definition no_params :: request where
  "no_params =
     \<lparr>r_id = [], r_search = None, r_department = None, r_subject = None, r_teacher = None,
      r_role = None, r_page = None, r_limit = None, r_body = Map.empty\<rparr>"

text \<open>
  What a handler can throw: an error of the storage engine, or the \<open>Error\<close>
  constructor itself (\<open>throw Error\<close> after an insert that returned no row).
\<close>

datatype thrown = Storage dberror | ErrorConstructor

record pagination =
  p_page :: jsnum
  p_limit :: jsnum
  p_total :: val
  p_totalPages :: jsnum

text \<open>
  The JSON bodies the handlers send: \<open>{data, pagination}\<close>, \<open>{data}\<close>,
  \<open>{data: {subject, totals: {classes}}}\<close>, \<open>{key: text}\<close> and
  \<open>{error: e}\<close> with the caught value itself.
\<close>

datatype body =
    Page "orow list" pagination
  | Data orow
  | SubjectDetails orow val
  | Message string string
  | Failure thrown

text \<open>
  A handler either writes a response or, where it has no \<open>try\<close>, lets the rejection
  escape without writing one. \<open>logged\<close> is what went to \<open>console.error\<close>, the
  label and the caught value; \<open>issued\<close> lists the statements sent to storage.
\<close>

datatype reply = Responded nat body | Rejected thrown

record 's outcome =
  reply :: reply
  logged :: "(string \<times> thrown) list"
  issued :: "'s list"

definition respond :: "nat \<Rightarrow> body \<Rightarrow> 's list \<Rightarrow> 's outcome" where
  "respond status b sent = \<lparr>reply = Responded status b, logged = [], issued = sent\<rparr>"

text \<open>A \<open>catch\<close> block that logs and answers 500 with a fixed text.\<close>

definition caught :: "string \<Rightarrow> thrown \<Rightarrow> string \<Rightarrow> string \<Rightarrow> 's list \<Rightarrow> 's outcome" where
  "caught label e key message sent =
     \<lparr>reply = Responded 500 (Message key message), logged = [(label, e)], issued = sent\<rparr>"

text \<open>\<open>if (x) filterConditions.push(f(x))\<close>: absent and empty strings are falsy.\<close>

definition pushed :: "string option \<Rightarrow> (string \<Rightarrow> cond) \<Rightarrow> cond list" where
  "pushed x f = (case x of None \<Rightarrow> [] | Some s \<Rightarrow> (if s = [] then [] else [f s]))"

definition whereClause_of :: "cond list \<Rightarrow> cond option" where
  "whereClause_of filterConditions =
     (if length filterConditions > 0 then Some (And filterConditions) else None)"

text \<open>\<open>countResult[0]?.count ?? 0\<close>.\<close>

definition totalCount_of :: "orow list \<Rightarrow> val" where
  "totalCount_of countResult =
     (case countResult of
        [] \<Rightarrow> VInt 0
      | r # _ \<Rightarrow> (case map_of r ''count'' of None \<Rightarrow> VInt 0 | Some VNull \<Rightarrow> VInt 0 | Some v \<Rightarrow> v))"

fun to_number :: "val \<Rightarrow> jsnum" where
  "to_number (VInt i) = Num (of_int i)"
| "to_number (VText s) = Number s"
| "to_number (VBool b) = Num (if b then 1 else 0)"
| "to_number VNull = Num 0"

definition envelope :: "orow list \<Rightarrow> jsnum \<Rightarrow> jsnum \<Rightarrow> val \<Rightarrow> body" where
  "envelope rows currentPage limitPerPage totalCount =
     Page rows
       \<lparr>p_page = currentPage, p_limit = limitPerPage, p_total = totalCount,
        p_totalPages = Math_ceil (js_div (to_number totalCount) limitPerPage)\<rparr>"

text \<open>
  The tail every listing shares: the count query, then the list query, then the
  \<open>200\<close> envelope, all inside the handler's \<open>try\<close>.
\<close>

definition count_then_list ::
  "(query \<Rightarrow> dberror + orow list) \<Rightarrow> query \<Rightarrow> query \<Rightarrow> jsnum \<Rightarrow> jsnum
   \<Rightarrow> string \<Rightarrow> string \<Rightarrow> string \<Rightarrow> query list \<Rightarrow> query outcome" where
  "count_then_list run countQuery listQuery currentPage limitPerPage label key message sent =
     (case run countQuery of
        Inl e \<Rightarrow> caught label (Storage e) key message (sent @ [countQuery])
      | Inr countResult \<Rightarrow>
          (case run listQuery of
             Inl e \<Rightarrow> caught label (Storage e) key message (sent @ [countQuery, listQuery])
           | Inr rows \<Rightarrow>
               respond 200 (envelope rows currentPage limitPerPage (totalCount_of countResult))
                 (sent @ [countQuery, listQuery])))"

definition select_from :: "(string \<times> sel) list \<Rightarrow> tbl \<Rightarrow> query" where
  "select_from selection t =
     \<lparr>q_select = selection, q_from = t, q_joins = [], q_where = None, q_groupBy = [],
      q_orderBy = [], q_limit = None, q_offset = None\<rparr>"

section \<open>routes/subjects.ts\<close>

subsection \<open>GET /subjects\<close>

definition subjects_whereClause :: "request \<Rightarrow> cond option" where
  "subjects_whereClause req =
     whereClause_of
       (pushed (r_search req) (\<lambda>search.
          Or [ILike (subjects, ''name'') (contains_pattern search),
              ILike (subjects, ''code'') (contains_pattern search)])
        @ pushed (r_department req) (\<lambda>department.
            ILike (departments, ''name'') (contains_pattern (replace_wildcards department))))"

definition subjects_countQuery :: "cond option \<Rightarrow> query" where
  "subjects_countQuery whereClause =
     (select_from [(''count'', CountStar)] subjects)
       \<lparr>q_joins := [(departments, EqCol (subjects, ''departmentId'') (departments, ''id''))],
        q_where := whereClause\<rparr>"

definition subjects_listQuery :: "cond option \<Rightarrow> jsnum \<Rightarrow> jsnum \<Rightarrow> query" where
  "subjects_listQuery whereClause limitPerPage offset =
     (select_from (columns_of subjects @ nested ''department'' departments) subjects)
       \<lparr>q_joins := [(departments, EqCol (subjects, ''departmentId'') (departments, ''id''))],
        q_where := whereClause,
        q_orderBy := [(subjects, ''createdAt'')],
        q_limit := Some limitPerPage, q_offset := Some offset\<rparr>"

definition get_subjects :: "(query \<Rightarrow> dberror + orow list) \<Rightarrow> request \<Rightarrow> query outcome" where
  "get_subjects run req =
     (let currentPage = currentPage_parsed (r_page req);
          limitPerPage = limitPerPage_parsed (r_limit req);
          offset = offset_of currentPage limitPerPage;
          whereClause = subjects_whereClause req
      in count_then_list run (subjects_countQuery whereClause)
           (subjects_listQuery whereClause limitPerPage offset) currentPage limitPerPage
           ''GET /subjects error: '' ''error'' ''Failed to get subjects'' [])"

subsection \<open>POST /subjects\<close>

record insertion =
  i_into :: tbl
  i_values :: "string \<rightharpoonup> jsval"
  i_returning :: "(string \<times> col) list"

definition post_subjects ::
  "(insertion \<Rightarrow> dberror + orow list) \<Rightarrow> request \<Rightarrow> insertion outcome" where
  "post_subjects ins req =
     (let stmt = \<lparr>i_into = subjects,
                  i_values = (\<lambda>k. if k \<in> set [''departmentId'', ''name'', ''code'', ''description'']
                                  then r_body req k else None),
                  i_returning = [(''id'', (subjects, ''id''))]\<rparr>
      in case ins stmt of
           Inl e \<Rightarrow> caught ''POST /subjects error: '' (Storage e) ''error''
                      ''Failed to create subject'' [stmt]
         | Inr [] \<Rightarrow> caught ''POST /subjects error: '' ErrorConstructor ''error''
                      ''Failed to create subject'' [stmt]
         | Inr (createdSubject # _) \<Rightarrow> respond 201 (Data createdSubject) [stmt])"

subsection \<open>GET /subjects/:id\<close>

definition subject_detailQuery :: "jsnum \<Rightarrow> query" where
  "subject_detailQuery subjectId =
     (select_from (columns_of subjects @ nested ''department'' departments) subjects)
       \<lparr>q_joins := [(departments, EqCol (subjects, ''departmentId'') (departments, ''id''))],
        q_where := Some (Eq (subjects, ''id'') (LNum subjectId))\<rparr>"

definition subject_classesCountQuery :: "jsnum \<Rightarrow> query" where
  "subject_classesCountQuery subjectId =
     (select_from [(''count'', CountStar)] subjects)
       \<lparr>q_where := Some (Eq (subjects, ''id'') (LNum subjectId))\<rparr>"

definition get_subject :: "(query \<Rightarrow> dberror + orow list) \<Rightarrow> request \<Rightarrow> query outcome" where
  "get_subject run req =
     (let subjectId = Number (r_id req);
          label = ''GET /subjects/:id error: '';
          q1 = subject_detailQuery subjectId;
          q2 = subject_classesCountQuery subjectId
      in if \<not> isFinite subjectId then respond 400 (Message ''error'' ''Invalid subject id.'') []
         else
           (case run q1 of
              Inl e \<Rightarrow> caught label (Storage e) ''error'' ''Failed to get subject details'' [q1]
            | Inr [] \<Rightarrow> respond 404 (Message ''error'' ''Subject not found.'') [q1]
            | Inr (subject # _) \<Rightarrow>
                (case run q2 of
                   Inl e \<Rightarrow>
                     caught label (Storage e) ''error'' ''Failed to get subject details'' [q1, q2]
                 | Inr classesCount \<Rightarrow>
                     respond 200 (SubjectDetails subject (totalCount_of classesCount)) [q1, q2])))"

subsection \<open>GET /subjects/:id/classes\<close>

definition subjectClasses_countQuery :: "jsnum \<Rightarrow> query" where
  "subjectClasses_countQuery subjectId =
     (select_from [(''count'', CountStar)] classes)
       \<lparr>q_where := Some (Eq (classes, ''subjectId'') (LNum subjectId))\<rparr>"

definition subjectClasses_listQuery :: "jsnum \<Rightarrow> jsnum \<Rightarrow> jsnum \<Rightarrow> query" where
  "subjectClasses_listQuery subjectId limitPerPage offset =
     (select_from (columns_of classes @ nested ''teacher'' user) classes)
       \<lparr>q_joins := [(user, EqCol (classes, ''teacherId'') (user, ''id''))],
        q_where := Some (Eq (classes, ''subjectId'') (LNum subjectId)),
        q_orderBy := [(classes, ''createdAt'')],
        q_limit := Some limitPerPage, q_offset := Some offset\<rparr>"

definition get_subject_classes ::
  "(query \<Rightarrow> dberror + orow list) \<Rightarrow> request \<Rightarrow> query outcome" where
  "get_subject_classes run req =
     (let subjectId = Number (r_id req) in
      if \<not> isFinite subjectId then respond 400 (Message ''error'' ''Invalid subject id.'') []
      else
        (let currentPage = currentPage_plus (r_page req);
             limitPerPage = limitPerPage_plus (r_limit req);
             offset = offset_of currentPage limitPerPage
         in count_then_list run (subjectClasses_countQuery subjectId)
              (subjectClasses_listQuery subjectId limitPerPage offset) currentPage limitPerPage
              ''GET /subjects/:id/classes error: '' ''error'' ''Failed to get subject classes'' []))"

subsection \<open>GET /subjects/:id/users\<close>

definition subjectUsers_where :: "string \<Rightarrow> jsnum \<Rightarrow> cond" where
  "subjectUsers_where role subjectId =
     And [Eq (user, ''role'') (LStr role), Eq (classes, ''subjectId'') (LNum subjectId)]"

text \<open>
  The count query of the teacher branch is written \<open>.from(classes).leftJoin(classes, ...)\<close>;
  the count query of the student branch and both list queries start \<open>.from(user)\<close>.
\<close>

definition subjectUsers_countQuery :: "string \<Rightarrow> jsnum \<Rightarrow> query" where
  "subjectUsers_countQuery role subjectId =
     (if role = ''teacher'' then
        (select_from [(''count'', CountDistinct (user, ''id''))] classes)
          \<lparr>q_joins := [(classes, EqCol (user, ''id'') (classes, ''teacherId''))],
           q_where := Some (subjectUsers_where role subjectId)\<rparr>
      else
        (select_from [(''count'', CountDistinct (user, ''id''))] user)
          \<lparr>q_joins := [(enrollments, EqCol (user, ''id'') (enrollments, ''studentId'')),
                       (classes, EqCol (enrollments, ''classId'') (classes, ''id''))],
           q_where := Some (subjectUsers_where role subjectId)\<rparr>)"

definition baseSelect :: "(string \<times> sel) list" where
  "baseSelect =
     map (\<lambda>c. (c, Col (user, c)))
       [''id'', ''name'', ''email'', ''emailVerified'', ''image'', ''role'', ''imageCldPubId'',
        ''createdAt'', ''updatedAt'']"

definition groupByFields :: "col list" where
  "groupByFields =
     map (\<lambda>c. (user, c))
       [''id'', ''name'', ''email'', ''emailVerified'', ''image'', ''role'', ''imageCldPubId'',
        ''createdAt'', ''updatedAt'']"

definition subjectUsers_listQuery :: "string \<Rightarrow> jsnum \<Rightarrow> jsnum \<Rightarrow> jsnum \<Rightarrow> query" where
  "subjectUsers_listQuery role subjectId limitPerPage offset =
     (select_from baseSelect user)
       \<lparr>q_joins :=
          (if role = ''teacher'' then [(classes, EqCol (user, ''id'') (classes, ''teacherId''))]
           else [(enrollments, EqCol (user, ''id'') (enrollments, ''studentId'')),
                 (classes, EqCol (enrollments, ''classId'') (classes, ''id''))]),
        q_where := Some (subjectUsers_where role subjectId),
        q_groupBy := groupByFields,
        q_orderBy := [(user, ''createdAt'')],
        q_limit := Some limitPerPage, q_offset := Some offset\<rparr>"

definition get_subject_users ::
  "(query \<Rightarrow> dberror + orow list) \<Rightarrow> request \<Rightarrow> query outcome" where
  "get_subject_users run req =
     (let subjectId = Number (r_id req) in
      if \<not> isFinite subjectId then respond 400 (Message ''error'' ''Invalid subject id.'') []
      else
        (case r_role req of
           None \<Rightarrow> respond 400 (Message ''error'' ''Invalid role'') []
         | Some role \<Rightarrow>
             (if role \<noteq> ''teacher'' \<and> role \<noteq> ''student''
              then respond 400 (Message ''error'' ''Invalid role'') []
              else
                (let currentPage = currentPage_plus (r_page req);
                     limitPerPage = limitPerPage_plus (r_limit req);
                     offset = offset_of currentPage limitPerPage
                 in count_then_list run (subjectUsers_countQuery role subjectId)
                      (subjectUsers_listQuery role subjectId limitPerPage offset)
                      currentPage limitPerPage
                      ''GET /subjects/:id/users error: '' ''error''
                      ''Failed to get subject users'' []))))"

section \<open>routes/classes.ts\<close>

subsection \<open>GET /classes\<close>

definition classes_whereClause :: "request \<Rightarrow> cond option" where
  "classes_whereClause req =
     whereClause_of
       (pushed (r_search req) (\<lambda>search.
          Or [ILike (classes, ''name'') (contains_pattern search),
              ILike (classes, ''inviteCode'') (contains_pattern search)])
        @ pushed (r_subject req) (\<lambda>subject.
            ILike (subjects, ''name'') (contains_pattern (replace_wildcards subject)))
        @ pushed (r_teacher req) (\<lambda>teacher.
            ILike (user, ''name'') (contains_pattern (replace_wildcards teacher))))"

definition classes_joins :: "(tbl \<times> cond) list" where
  "classes_joins =
     [(subjects, EqCol (classes, ''subjectId'') (subjects, ''id'')),
      (user, EqCol (classes, ''teacherId'') (user, ''id''))]"

definition classes_countQuery :: "cond option \<Rightarrow> query" where
  "classes_countQuery whereClause =
     (select_from [(''count'', CountStar)] classes)
       \<lparr>q_joins := classes_joins, q_where := whereClause\<rparr>"

definition classes_listQuery :: "cond option \<Rightarrow> jsnum \<Rightarrow> jsnum \<Rightarrow> query" where
  "classes_listQuery whereClause limitPerPage offset =
     (select_from (columns_of classes @ nested ''subject'' subjects @ nested ''teacher'' user)
        classes)
       \<lparr>q_joins := classes_joins, q_where := whereClause,
        q_orderBy := [(classes, ''createdAt'')],
        q_limit := Some limitPerPage, q_offset := Some offset\<rparr>"

definition get_classes :: "(query \<Rightarrow> dberror + orow list) \<Rightarrow> request \<Rightarrow> query outcome" where
  "get_classes run req =
     (let currentPage = currentPage_plus (r_page req);
          limitPerPage = limitPerPage_plus (r_limit req);
          offset = offset_of currentPage limitPerPage;
          whereClause = classes_whereClause req
      in count_then_list run (classes_countQuery whereClause)
           (classes_listQuery whereClause limitPerPage offset) currentPage limitPerPage
           ''GET /classes error '' ''errror'' ''Failed to get classes'' [])"

subsection \<open>GET /classes/:id\<close>

definition class_detailQuery :: "jsnum \<Rightarrow> query" where
  "class_detailQuery classId =
     (select_from
        (columns_of classes @ nested ''subject'' subjects @ nested ''department'' departments
         @ nested ''teacher'' user) classes)
       \<lparr>q_joins :=
          [(subjects, EqCol (classes, ''subjectId'') (subjects, ''id'')),
           (user, EqCol (classes, ''teacherId'') (user, ''id'')),
           (departments, EqCol (subjects, ''departmentId'') (departments, ''id''))],
        q_where := Some (Eq (classes, ''id'') (LNum classId))\<rparr>"

text \<open>This handler has no \<open>try\<close>: an error of the query escapes it.\<close>

definition get_class :: "(query \<Rightarrow> dberror + orow list) \<Rightarrow> request \<Rightarrow> query outcome" where
  "get_class run req =
     (let classId = Number (r_id req); q = class_detailQuery classId in
      if \<not> isFinite classId then respond 400 (Message ''error'' ''No Class found.'') []
      else
        (case run q of
           Inl e \<Rightarrow> \<lparr>reply = Rejected (Storage e), logged = [], issued = [q]\<rparr>
         | Inr [] \<Rightarrow> respond 404 (Message ''error'' ''No Class found.'') [q]
         | Inr (classDetails # _) \<Rightarrow> respond 200 (Data classDetails) [q]))"

subsection \<open>POST /classes\<close>

text \<open>\<open>s.substring(b, e)\<close> for indices within the string's type (non-negative).\<close>

definition substring :: "nat \<Rightarrow> nat \<Rightarrow> string \<Rightarrow> string" where
  "substring b e s =
     (let lo = min (min b e) (length s); hi = min (max b e) (length s)
      in take (hi - lo) (drop lo s))"

text \<open>
  \<open>random36\<close> stands for the string \<open>Math.random().toString(36)\<close>, which the handler
  cuts with \<open>.substring(2, 9)\<close>. The catch block answers \<open>{error: e}\<close> with the caught
  value.
\<close>

definition post_classes ::
  "(insertion \<Rightarrow> dberror + orow list) \<Rightarrow> string \<Rightarrow> request \<Rightarrow> insertion outcome" where
  "post_classes ins random36 req =
     (let stmt = \<lparr>i_into = classes,
                  i_values = (r_body req)
                    (''inviteCode'' \<mapsto> JStr (substring 2 9 random36), ''schedules'' \<mapsto> JArr []),
                  i_returning = [(''id'', (classes, ''id''))]\<rparr>
      in case ins stmt of
           Inl e \<Rightarrow> \<lparr>reply = Responded 500 (Failure (Storage e)),
                      logged = [(''POST /classes error '', Storage e)], issued = [stmt]\<rparr>
         | Inr [] \<Rightarrow> \<lparr>reply = Responded 500 (Failure ErrorConstructor),
                       logged = [(''POST /classes error '', ErrorConstructor)], issued = [stmt]\<rparr>
         | Inr (createdClass # _) \<Rightarrow> respond 201 (Data createdClass) [stmt])"

section \<open>The users router (second module of routes/classes.ts)\<close>

subsection \<open>GET /users\<close>

definition users_whereClause :: "request \<Rightarrow> cond option" where
  "users_whereClause req =
     whereClause_of
       (pushed (r_search req) (\<lambda>search.
          Or [ILike (user, ''name'') (contains_pattern search),
              ILike (user, ''email'') (contains_pattern search)])
        @ pushed (r_role req) (\<lambda>role. Eq (user, ''role'') (LStr role)))"

definition users_countQuery :: "cond option \<Rightarrow> query" where
  "users_countQuery whereClause =
     (select_from [(''count'', CountStar)] user)\<lparr>q_where := whereClause\<rparr>"

text \<open>The list query has no \<open>.where(...)\<close> call.\<close>

definition users_listQuery :: "jsnum \<Rightarrow> jsnum \<Rightarrow> query" where
  "users_listQuery limitPerPage offset =
     (select_from (columns_of user) user)
       \<lparr>q_orderBy := [(user, ''createdAt'')],
        q_limit := Some limitPerPage, q_offset := Some offset\<rparr>"

definition get_users :: "(query \<Rightarrow> dberror + orow list) \<Rightarrow> request \<Rightarrow> query outcome" where
  "get_users run req =
     (let currentPage = currentPage_parsed (r_page req);
          limitPerPage = limitPerPage_parsed (r_limit req);
          offset = offset_of currentPage limitPerPage;
          whereClause = users_whereClause req
      in count_then_list run (users_countQuery whereClause)
           (users_listQuery limitPerPage offset) currentPage limitPerPage
           ''GET /users error: '' ''error'' ''Failed to get users'' [])"

subsection \<open>GET /users/:id\<close>

definition user_detailQuery :: "string \<Rightarrow> query" where
  "user_detailQuery userId =
     (select_from (columns_of user) user)\<lparr>q_where := Some (Eq (user, ''id'') (LStr userId))\<rparr>"

definition get_user :: "(query \<Rightarrow> dberror + orow list) \<Rightarrow> request \<Rightarrow> query outcome" where
  "get_user run req =
     (let q = user_detailQuery (r_id req) in
      case run q of
        Inl e \<Rightarrow> caught ''GET /user/:id error:'' (Storage e) ''error'' ''Failed to fetch user.'' [q]
      | Inr [] \<Rightarrow> respond 404 (Message ''error'' ''User not found.'') [q]
      | Inr (userRecord # _) \<Rightarrow> respond 200 (Data userRecord) [q])"

subsection \<open>The role lookup of the two user-scoped listings\<close>

definition user_roleQuery :: "string \<Rightarrow> query" where
  "user_roleQuery userId =
     (select_from [(''id'', Col (user, ''id'')), (''role'', Col (user, ''role''))] user)
       \<lparr>q_where := Some (Eq (user, ''id'') (LStr userId))\<rparr>"

text \<open>\<open>userRecord.role\<close>; a missing property reads as \<open>undefined\<close>, here \<open>VNull\<close>.\<close>

definition role_of :: "orow \<Rightarrow> val" where
  "role_of userRecord = (case map_of userRecord ''role'' of Some v \<Rightarrow> v | None \<Rightarrow> VNull)"

definition empty_envelope :: body where
  "empty_envelope =
     Page [] \<lparr>p_page = Num 1, p_limit = Num 0, p_total = VInt 0, p_totalPages = Num 0\<rparr>"

subsection \<open>GET /users/:id/departments\<close>

definition userDepartments_joins :: "bool \<Rightarrow> (tbl \<times> cond) list" where
  "userDepartments_joins teacher =
     [(subjects, EqCol (subjects, ''departmentId'') (departments, ''id'')),
      (classes, EqCol (classes, ''subjectId'') (subjects, ''id''))]
     @ (if teacher then [] else [(enrollments, EqCol (enrollments, ''classId'') (classes, ''id''))])"

definition reached_by :: "bool \<Rightarrow> string \<Rightarrow> cond" where
  "reached_by teacher userId =
     (if teacher then Eq (classes, ''teacherId'') (LStr userId)
      else Eq (enrollments, ''studentId'') (LStr userId))"

definition userDepartments_countQuery :: "bool \<Rightarrow> string \<Rightarrow> query" where
  "userDepartments_countQuery teacher userId =
     (select_from [(''count'', CountDistinct (departments, ''id''))] departments)
       \<lparr>q_joins := userDepartments_joins teacher, q_where := Some (reached_by teacher userId)\<rparr>"

definition userDepartments_listQuery :: "bool \<Rightarrow> string \<Rightarrow> jsnum \<Rightarrow> jsnum \<Rightarrow> query" where
  "userDepartments_listQuery teacher userId limitPerPage offset =
     (select_from (columns_of departments) departments)
       \<lparr>q_joins := userDepartments_joins teacher, q_where := Some (reached_by teacher userId),
        q_groupBy := map (\<lambda>c. (departments, c))
           [''id'', ''code'', ''name'', ''description'', ''createdAt'', ''updatedAt''],
        q_orderBy := [(departments, ''createdAt'')],
        q_limit := Some limitPerPage, q_offset := Some offset\<rparr>"

definition get_user_departments ::
  "(query \<Rightarrow> dberror + orow list) \<Rightarrow> request \<Rightarrow> query outcome" where
  "get_user_departments run req =
     (let userId = r_id req; q = user_roleQuery userId;
          label = ''GET /users/:id/departments error:''
      in case run q of
           Inl e \<Rightarrow> caught label (Storage e) ''error'' ''Failed to fetch user departments'' [q]
         | Inr [] \<Rightarrow> respond 404 (Message ''error'' ''User not found.'') [q]
         | Inr (userRecord # _) \<Rightarrow>
             (if role_of userRecord \<noteq> VText ''teacher'' \<and> role_of userRecord \<noteq> VText ''student''
              then respond 200 empty_envelope [q]
              else
                (let currentPage = currentPage_plus (r_page req);
                     limitPerPage = limitPerPage_plus (r_limit req);
                     offset = offset_of currentPage limitPerPage;
                     teacher = (role_of userRecord = VText ''teacher'')
                 in count_then_list run (userDepartments_countQuery teacher userId)
                      (userDepartments_listQuery teacher userId limitPerPage offset)
                      currentPage limitPerPage label ''error''
                      ''Failed to fetch user departments'' [q])))"

subsection \<open>GET /users/:id/subjects\<close>

definition userSubjects_countQuery :: "bool \<Rightarrow> string \<Rightarrow> query" where
  "userSubjects_countQuery teacher userId =
     (select_from [(''count'', CountDistinct (subjects, ''id''))] subjects)
       \<lparr>q_joins :=
          [(classes, EqCol (classes, ''subjectId'') (subjects, ''id''))]
          @ (if teacher then []
             else [(enrollments, EqCol (enrollments, ''classId'') (classes, ''id''))]),
        q_where := Some (reached_by teacher userId)\<rparr>"

definition userSubjects_listQuery :: "bool \<Rightarrow> string \<Rightarrow> jsnum \<Rightarrow> jsnum \<Rightarrow> query" where
  "userSubjects_listQuery teacher userId limitPerPage offset =
     (select_from (columns_of subjects @ nested ''department'' departments) subjects)
       \<lparr>q_joins :=
          [(departments, EqCol (subjects, ''departmentId'') (departments, ''id'')),
           (classes, EqCol (classes, ''subjectId'') (subjects, ''id''))]
          @ (if teacher then []
             else [(enrollments, EqCol (enrollments, ''classId'') (classes, ''id''))]),
        q_where := Some (reached_by teacher userId),
        q_groupBy :=
          map (\<lambda>c. (subjects, c))
            [''id'', ''departmentId'', ''name'', ''code'', ''description'', ''createdAt'',
             ''updatedAt'']
          @ map (\<lambda>c. (departments, c))
            [''id'', ''code'', ''name'', ''description'', ''createdAt'', ''updatedAt''],
        q_orderBy := [(subjects, ''createdAt'')],
        q_limit := Some limitPerPage, q_offset := Some offset\<rparr>"

definition get_user_subjects ::
  "(query \<Rightarrow> dberror + orow list) \<Rightarrow> request \<Rightarrow> query outcome" where
  "get_user_subjects run req =
     (let userId = r_id req; q = user_roleQuery userId;
          label = ''GET /users/:id/subjects error:''
      in case run q of
           Inl e \<Rightarrow> caught label (Storage e) ''error'' ''Failed to fetch user departments'' [q]
         | Inr [] \<Rightarrow> respond 404 (Message ''error'' ''User not found.'') [q]
         | Inr (userRecord # _) \<Rightarrow>
             (if role_of userRecord \<noteq> VText ''teacher'' \<and> role_of userRecord \<noteq> VText ''student''
              then respond 200 empty_envelope [q]
              else
                (let currentPage = currentPage_plus (r_page req);
                     limitPerPage = limitPerPage_plus (r_limit req);
                     offset = offset_of currentPage limitPerPage;
                     teacher = (role_of userRecord = VText ''teacher'')
                 in count_then_list run (userSubjects_countQuery teacher userId)
                      (userSubjects_listQuery teacher userId limitPerPage offset)
                      currentPage limitPerPage label ''error''
                      ''Failed to fetch user departments'' [q])))"

section \<open>routes/departments.ts\<close>

subsection \<open>GET /departments\<close>

definition departments_whereClause :: "request \<Rightarrow> cond option" where
  "departments_whereClause req =
     whereClause_of
       (pushed (r_search req) (\<lambda>search.
          Or [ILike (departments, ''name'') (contains_pattern search),
              ILike (departments, ''code'') (contains_pattern search)]))"

definition departments_countQuery :: "cond option \<Rightarrow> query" where
  "departments_countQuery whereClause =
     (select_from [(''count'', CountStar)] departments)\<lparr>q_where := whereClause\<rparr>"

definition departments_listQuery :: "cond option \<Rightarrow> jsnum \<Rightarrow> jsnum \<Rightarrow> query" where
  "departments_listQuery whereClause limitPerPage offset =
     (select_from (columns_of departments @ [(''totalSubjects'', Count (subjects, ''id''))])
        departments)
       \<lparr>q_joins := [(subjects, EqCol (departments, ''id'') (subjects, ''departmentId''))],
        q_where := whereClause,
        q_groupBy := [(departments, ''id'')],
        q_orderBy := [(departments, ''id'')],
        q_limit := Some limitPerPage, q_offset := Some offset\<rparr>"

definition get_departments ::
  "(query \<Rightarrow> dberror + orow list) \<Rightarrow> request \<Rightarrow> query outcome" where
  "get_departments run req =
     (let currentPage = currentPage_plus (r_page req);
          limitPerPage = limitPerPage_plus (r_limit req);
          offset = offset_of currentPage limitPerPage;
          whereClause = departments_whereClause req
      in count_then_list run (departments_countQuery whereClause)
           (departments_listQuery whereClause limitPerPage offset) currentPage limitPerPage
           ''GET /departments error:'' ''message'' ''Failed to fetch departments.'' [])"

section \<open>Example data\<close>

text \<open>
  The scenario of the spec: department CS (id 1) has the subject Algorithms (id 10, code
  CS201); the subject has two classes taught by teacher \<open>t1\<close>; student \<open>s1\<close> is enrolled
  in one of them. An administrator \<open>a1\<close> is added.
\<close>

definition user_row :: "string \<Rightarrow> string \<Rightarrow> int \<Rightarrow> trow" where
  "user_row i r t =
     [(''id'', VText i), (''name'', VText i), (''email'', VText (i @ ''@school.example'')),
      (''emailVerified'', VBool True), (''image'', VNull), (''role'', VText r),
      (''imageCldPubId'', VNull), (''createdAt'', VInt t), (''updatedAt'', VInt t)]"

definition class_row :: "int \<Rightarrow> int \<Rightarrow> string \<Rightarrow> int \<Rightarrow> trow" where
  "class_row i s t c =
     [(''id'', VInt i), (''subjectId'', VInt s), (''teacherId'', VText t),
      (''name'', VText ''Lecture''), (''inviteCode'', VText ''k3f9x2a''),
      (''schedules'', VText ''[]''), (''createdAt'', VInt c), (''updatedAt'', VInt c)]"

definition subject_row :: "int \<Rightarrow> int \<Rightarrow> string \<Rightarrow> string \<Rightarrow> int \<Rightarrow> trow" where
  "subject_row i d n c t =
     [(''id'', VInt i), (''departmentId'', VInt d), (''name'', VText n), (''code'', VText c),
      (''description'', VNull), (''createdAt'', VInt t), (''updatedAt'', VInt t)]"

definition department_row :: "int \<Rightarrow> string \<Rightarrow> string \<Rightarrow> int \<Rightarrow> trow" where
  "department_row i c n t =
     [(''id'', VInt i), (''code'', VText c), (''name'', VText n), (''description'', VNull),
      (''createdAt'', VInt t), (''updatedAt'', VInt t)]"

definition scenario_db :: database where
  "scenario_db = (\<lambda>_. [])
     (departments := [department_row 1 ''CS'' ''CS'' 50],
      subjects := [subject_row 10 1 ''Algorithms'' ''CS201'' 100],
      user := [user_row ''t1'' ''teacher'' 1, user_row ''s1'' ''student'' 2,
               user_row ''a1'' ''admin'' 3],
      classes := [class_row 100 10 ''t1'' 5, class_row 101 10 ''t1'' 6],
      enrollments := [[(''studentId'', VText ''s1''), (''classId'', VInt 100)]])"

text \<open>A department and a subject whose names are \<open>501-Hub\<close>, without a percent sign.\<close>

definition hub_db :: database where
  "hub_db = (\<lambda>_. [])
     (departments := [department_row 1 ''HUB'' ''501-Hub'' 50],
      subjects := [subject_row 10 1 ''501-Hub'' ''H1'' 100])"

text \<open>A department whose name, \<open>R\D Lab\<close>, holds a backslash.\<close>

definition lab_db :: database where
  "lab_db = (\<lambda>_. [])
     (departments := [department_row 1 ''RD'' (''R'' @ [CHR 0x5C] @ ''D Lab'') 50],
      subjects := [subject_row 10 1 ''Prototyping'' ''RD1'' 100])"


text \<open>Two classes created at the same instant, stored in either order.\<close>

definition tie_db :: database where
  "tie_db = (\<lambda>_. [])(classes := [class_row 1 10 ''t1'' 5, class_row 2 10 ''t1'' 5])"

definition tie_db_swapped :: database where
  "tie_db_swapped = (\<lambda>_. [])(classes := [class_row 2 10 ''t1'' 5, class_row 1 10 ''t1'' 5])"

text \<open>Two departments; the one with the smaller id was created later.\<close>

definition backfilled_db :: database where
  "backfilled_db = (\<lambda>_. [])
     (departments := [department_row 1 ''MA'' ''Mathematics'' 200,
                      department_row 2 ''CS'' ''Computing'' 100])"

section \<open>Reading a listing\<close>

text \<open>The \<open>id\<close> of each row of a \<open>{data, pagination}\<close> answer, in the order sent.\<close>

definition listed_ids :: "'s outcome \<Rightarrow> val list" where
  "listed_ids out =
     (case reply out of
        Responded _ (Page rows _) \<Rightarrow>
          map (\<lambda>r. case map_of r ''id'' of Some v \<Rightarrow> v | None \<Rightarrow> VNull) rows
      | _ \<Rightarrow> [])"

text \<open>
  Newest first: no row is followed by a row with a later \<open>createdAt\<close>. A table is
  timestamped when every row has a \<open>createdAt\<close> that is a time.
\<close>

definition createdAt_of :: "orow \<Rightarrow> val" where
  "createdAt_of r = (case map_of r ''createdAt'' of Some v \<Rightarrow> v | None \<Rightarrow> VNull)"

definition newest_first :: "orow list \<Rightarrow> bool" where
  "newest_first rows = sorted_wrt (\<lambda>a b. \<not> val_lt (createdAt_of a) (createdAt_of b)) rows"

definition is_timestamp :: "val \<Rightarrow> bool" where
  "is_timestamp v = (case v of VInt _ \<Rightarrow> True | _ \<Rightarrow> False)"

definition timestamped :: "database \<Rightarrow> tbl \<Rightarrow> bool" where
  "timestamped db t =
     list_all (\<lambda>r. case map_of r ''createdAt'' of Some v \<Rightarrow> is_timestamp v | None \<Rightarrow> False) (db t)"

section \<open>Facts about the storage engine\<close>

subsection \<open>Joined rows\<close>

lemma map_of_qualify: "map_of (qualify t r) (t, c) = map_of r c"
  by (induction r) (auto simp: qualify_def)


lemma cell_qualify: "cell (qualify t r) (t, c) = (case map_of r c of Some v \<Rightarrow> v | None \<Rightarrow> VNull)"
  by (simp add: cell_def map_of_qualify)


subsection \<open>Ordering\<close>

lemma insert_desc_no_key: "insert_desc (\<lambda>_. []) x ys = x # ys"
  by (cases ys) simp_all

lemma sort_desc_no_key: "sort_desc (\<lambda>_. []) xs = xs"
  by (induction xs) (simp_all add: sort_desc_def insert_desc_no_key)

subsection \<open>Keys\<close>

lemma one_row_per_key:
  "distinct (map f xs) \<Longrightarrow> x \<in> set xs \<Longrightarrow> length (filter (\<lambda>y. f y = f x) xs) = 1"
proof (induction xs)
  case Nil
  then show ?case by simp
next
  case (Cons a xs)
  show ?case
  proof (cases "f a = f x")
    case True
    with Cons.prems have "\<forall>y\<in>set xs. f y \<noteq> f x"
      by (auto simp: image_iff)
    then have "filter (\<lambda>y. f y = f x) xs = []"
      by (simp add: filter_empty_conv)
    with True show ?thesis by simp
  next
    case False
    with Cons show ?thesis by auto
  qed
qed

lemma cell_append_left: "cell e c \<noteq> VNull \<Longrightarrow> cell (e @ x) c = cell e c"
  by (auto simp: cell_def map_add_def split: option.splits)

lemma is_timestamp_append: "is_timestamp (cell e c) \<Longrightarrow> is_timestamp (cell (e @ x) c)"
  using cell_append_left [of e c x] by (cases "cell e c") (auto simp: is_timestamp_def)

lemma left_join_extends:
  "e' \<in> set (left_join db rows j) \<Longrightarrow> \<exists>e\<in>set rows. \<exists>x. e' = e @ x"
  by (auto simp: left_join_def Let_def split: if_splits)

lemma left_join_timestamps:
  assumes "list_all (\<lambda>e. is_timestamp (cell e c)) rows"
  shows "list_all (\<lambda>e. is_timestamp (cell e c)) (left_join db rows j)"
proof -
  have "is_timestamp (cell e' c)" if "e' \<in> set (left_join db rows j)" for e'
  proof -
    from left_join_extends [OF that] obtain e x where "e \<in> set rows" "e' = e @ x"
      by blast
    with assms show ?thesis
      by (auto simp: list_all_iff intro: is_timestamp_append)
  qed
  then show ?thesis
    by (simp add: list_all_iff)
qed

lemma joins_timestamps:
  "list_all (\<lambda>e. is_timestamp (cell e c)) rows \<Longrightarrow>
     list_all (\<lambda>e. is_timestamp (cell e c)) (foldl (left_join db) rows js)"
  by (induction js arbitrary: rows) (simp_all add: left_join_timestamps)

lemma base_timestamps:
  assumes "timestamped db t"
  shows "list_all (\<lambda>e. is_timestamp (cell e (t, ''createdAt''))) (map (qualify t) (db t))"
  using assms
  by (auto simp: timestamped_def list_all_iff cell_qualify split: option.splits)

lemma matching_timestamps:
  assumes "timestamped db (q_from q)"
  shows "list_all (\<lambda>e. is_timestamp (cell e (q_from q, ''createdAt''))) (matching_rows db q)"
proof -
  have "list_all (\<lambda>e. is_timestamp (cell e (q_from q, ''createdAt'')))
          (foldl (left_join db) (map (qualify (q_from q)) (db (q_from q))) (q_joins q))"
    using assms by (intro joins_timestamps base_timestamps)
  then show ?thesis
    by (auto simp: matching_rows_def Let_def list_all_iff split: option.splits)
qed

lemma group_rows_heads:
  "g \<in> set (group_rows key es) \<Longrightarrow> g \<noteq> [] \<and> hd g \<in> set es"
  by (induction key es rule: group_rows.induct) auto

lemma grouped_heads:
  assumes "\<not> has_aggregate q" and "g \<in> set (grouped q kept)"
  shows "g \<noteq> [] \<and> hd g \<in> set kept"
  using assms by (auto simp: grouped_def dest: group_rows_heads split: if_splits)

lemma keys_before_single: "keys_before [a] [b] = val_lt b a"
  by simp

lemma set_insert_desc: "set (insert_desc k x ys) = insert x (set ys)"
  by (induction ys) auto

lemma set_sort_desc: "set (sort_desc k xs) = set xs"
  by (induction xs) (simp_all add: sort_desc_def set_insert_desc)

lemma val_lt_timestamps:
  "is_timestamp a \<Longrightarrow> is_timestamp b \<Longrightarrow> is_timestamp c \<Longrightarrow>
     \<not> val_lt a b \<Longrightarrow> \<not> val_lt b c \<Longrightarrow> \<not> val_lt a c"
  by (cases a; cases b; cases c) (simp_all add: is_timestamp_def)

lemma val_lt_asym: "val_lt a b \<Longrightarrow> \<not> val_lt b a"
  by (cases a; cases b) simp_all

lemma sorted_insert_desc:
  assumes "sorted_wrt (\<lambda>x y. \<not> val_lt (ts x) (ts y)) ys"
      and "is_timestamp (ts x)" and "list_all (\<lambda>y. is_timestamp (ts y)) ys"
  shows "sorted_wrt (\<lambda>x y. \<not> val_lt (ts x) (ts y)) (insert_desc (\<lambda>g. [ts g]) x ys)"
  using assms
proof (induction ys)
  case Nil
  then show ?case by simp
next
  case (Cons y ys)
  show ?case
  proof (cases "val_lt (ts x) (ts y)")
    case True
    then have "\<not> val_lt (ts y) (ts x)"
      by (rule val_lt_asym)
    with True Cons show ?thesis
      by (auto simp: set_insert_desc)
  next
    case False
    have "\<not> val_lt (ts x) (ts z)" if "z \<in> set ys" for z
    proof -
      from that Cons.prems have "\<not> val_lt (ts y) (ts z)" "is_timestamp (ts z)" "is_timestamp (ts y)"
        by (auto simp: list_all_iff)
      with False Cons.prems(2) show ?thesis
        using val_lt_timestamps [of "ts x" "ts y" "ts z"] by simp
    qed
    with False Cons.prems show ?thesis
      by auto
  qed
qed

lemma sorted_sort_desc:
  assumes "list_all (\<lambda>y. is_timestamp (ts y)) xs"
  shows "sorted_wrt (\<lambda>x y. \<not> val_lt (ts x) (ts y)) (sort_desc (\<lambda>g. [ts g]) xs)"
  using assms
proof (induction xs)
  case Nil
  then show ?case by (simp add: sort_desc_def)
next
  case (Cons x xs)
  then have "sorted_wrt (\<lambda>x y. \<not> val_lt (ts x) (ts y)) (sort_desc (\<lambda>g. [ts g]) xs)"
    by simp
  moreover have "list_all (\<lambda>y. is_timestamp (ts y)) (sort_desc (\<lambda>g. [ts g]) xs)"
    using Cons.prems by (simp add: list_all_iff set_sort_desc)
  ultimately show ?case
    using Cons.prems sorted_insert_desc [of ts "sort_desc (\<lambda>g. [ts g]) xs" x]
    by (simp add: sort_desc_def)
qed

lemma sorted_paginate: "sorted_wrt R xs \<Longrightarrow> sorted_wrt R (paginate q xs)"
  by (auto simp: paginate_def Let_def split: option.splits)

lemma map_of_projected:
  "map_of (map (\<lambda>ls. (fst ls, f (snd ls))) sel) k = map_option f (map_of sel k)"
  by (induction sel) auto

lemma exec_newest_first:
  assumes ord: "q_orderBy q = [(q_from q, ''createdAt'')]"
      and agg: "\<not> has_aggregate q"
      and sel: "map_of (q_select q) ''createdAt'' = Some (Col (q_from q, ''createdAt''))"
      and tst: "timestamped db (q_from q)"
      and run: "exec db q = Inr rows"
  shows "newest_first rows"
proof -
  let ?c = "(q_from q, ''createdAt'')"
  let ?ts = "\<lambda>g. eval_sel g (Col ?c)"
  let ?groups = "grouped q (matching_rows db q)"
  let ?project = "\<lambda>g. map (\<lambda>ls. (fst ls, eval_sel g (snd ls))) (q_select q)"
  have stamped: "list_all (\<lambda>g. is_timestamp (?ts g)) ?groups"
  proof -
    have "is_timestamp (?ts g)" if "g \<in> set ?groups" for g
    proof -
      from grouped_heads [OF agg that] have "g \<noteq> []" "hd g \<in> set (matching_rows db q)"
        by simp_all
      moreover from matching_timestamps [OF tst]
      have "\<forall>e\<in>set (matching_rows db q). is_timestamp (cell e ?c)"
        by (simp add: list_all_iff)
      ultimately show ?thesis
        by (cases g) (auto simp: eval_sel_def)
    qed
    then show ?thesis
      by (simp add: list_all_iff)
  qed
  have "sorted_wrt (\<lambda>x y. \<not> val_lt (?ts x) (?ts y)) (sort_desc (\<lambda>g. [?ts g]) ?groups)"
    using stamped by (rule sorted_sort_desc)
  then have paged:
    "sorted_wrt (\<lambda>x y. \<not> val_lt (?ts x) (?ts y)) (paginate q (sort_desc (\<lambda>g. [?ts g]) ?groups))"
    by (rule sorted_paginate)
  have created: "createdAt_of (?project g) = ?ts g" for g
    by (simp add: createdAt_of_def map_of_projected sel)
  from run have "rows = map ?project (paginate q (sort_desc (\<lambda>g. [?ts g]) ?groups))"
    by (auto simp: exec_def ord Let_def split: if_splits)
  with paged show ?thesis
    by (simp add: newest_first_def sorted_wrt_map created)
qed

section \<open>Count and list of one request\<close>

text \<open>
  In every listing but \<open>GET /users\<close> the count query and the list query carry the
  same \<open>where\<close> clause.
\<close>

lemma listings_share_where:
  "q_where (subjects_countQuery w) = q_where (subjects_listQuery w l off)"
  "q_where (classes_countQuery w) = q_where (classes_listQuery w l off)"
  "q_where (departments_countQuery w) = q_where (departments_listQuery w l off)"
  "q_where (subjectClasses_countQuery n) = q_where (subjectClasses_listQuery n l off)"
  "q_where (subjectUsers_countQuery role n) = q_where (subjectUsers_listQuery role n l off)"
  "q_where (userDepartments_countQuery teacher u) =
     q_where (userDepartments_listQuery teacher u l off)"
  "q_where (userSubjects_countQuery teacher u) = q_where (userSubjects_listQuery teacher u l off)"
  by (simp_all add: subjects_countQuery_def subjects_listQuery_def classes_countQuery_def
      classes_listQuery_def departments_countQuery_def departments_listQuery_def
      subjectClasses_countQuery_def subjectClasses_listQuery_def subjectUsers_countQuery_def
      subjectUsers_listQuery_def userDepartments_countQuery_def userDepartments_listQuery_def
      userSubjects_countQuery_def userSubjects_listQuery_def select_from_def)

text \<open>
  C1. The claim: in every listing, count and list query share filter and joins, so the
  total is the number of rows the unbounded list query returns; in particular for
  \<open>GET /users\<close> and for \<open>GET /subjects/:id/users\<close> with \<open>role=teacher\<close>.
  The code at \<open>GET /users?role=teacher\<close> on the scenario: the count query carries
  the role filter and counts 1, the list query has no \<open>where\<close> and returns all three
  users. At \<open>GET /subjects/10/users?role=teacher\<close> the count query starts from
  \<open>classes\<close> and joins \<open>classes\<close> again, the list query starts from \<open>user\<close>; the
  engine rejects the count query and the handler answers 500.
\<close>

theorem get_users_total_disagrees_with_list:
  "reply (get_users (exec scenario_db) (no_params\<lparr>r_role := Some ''teacher''\<rparr>)) =
     Responded 200
       (Page [user_row ''a1'' ''admin'' 3, user_row ''s1'' ''student'' 2,
              user_row ''t1'' ''teacher'' 1]
          \<lparr>p_page = Num 1, p_limit = Num 10, p_total = VInt 1, p_totalPages = Num 1\<rparr>)
   \<and> q_where (users_countQuery (users_whereClause (no_params\<lparr>r_role := Some ''teacher''\<rparr>)))
       = Some (And [Eq (user, ''role'') (LStr ''teacher'')])
   \<and> q_where (users_listQuery (Num 10) (Num 0)) = None
   \<and> q_from (subjectUsers_countQuery ''teacher'' (Num 10)) = classes
   \<and> q_from (subjectUsers_listQuery ''teacher'' (Num 10) (Num 10) (Num 0)) = user
   \<and> reply (get_subject_users (exec scenario_db)
         (no_params\<lparr>r_id := ''10'', r_role := Some ''teacher''\<rparr>))
       = Responded 500 (Message ''error'' ''Failed to get subject users'')"
  by code_simp

section \<open>Pagination parameters of the listings\<close>

text \<open>
  \<open>GET /subjects\<close> and \<open>GET /users\<close>: whatever the raw parameters are, the page is
  a number from 1 up and the limit a number from 1 to 100.
\<close>

lemma parseInt_cases: "parseInt s = NaN \<or> (\<exists>r. parseInt s = Num r)"
  by (simp add: parseInt_def Let_def)

lemma limitPerPage_parsed_range:
  "\<exists>r. limitPerPage_parsed limit = Num r \<and> 1 \<le> r \<and> r \<le> 100"
proof -
  let ?s = "case limit of None \<Rightarrow> ''10'' | Some s \<Rightarrow> s"
  from parseInt_cases [of ?s] show ?thesis
  proof
    assume "parseInt ?s = NaN"
    then show ?thesis
      by (simp add: limitPerPage_parsed_def js_or_def Math_max_def Math_min_def)
  next
    assume "\<exists>r. parseInt ?s = Num r"
    then obtain r where "parseInt ?s = Num r" ..
    then show ?thesis
      by (auto simp: limitPerPage_parsed_def js_or_def Math_max_def Math_min_def)
  qed
qed

lemma currentPage_parsed_range: "\<exists>r. currentPage_parsed page = Num r \<and> 1 \<le> r"
proof -
  let ?s = "case page of None \<Rightarrow> ''1'' | Some s \<Rightarrow> s"
  from parseInt_cases [of ?s] show ?thesis
  proof
    assume "parseInt ?s = NaN"
    then show ?thesis
      by (simp add: currentPage_parsed_def js_or_def Math_max_def)
  next
    assume "\<exists>r. parseInt ?s = Num r"
    then obtain r where "parseInt ?s = Num r" ..
    then show ?thesis
      by (auto simp: currentPage_parsed_def js_or_def Math_max_def)
  qed
qed

text \<open>
  C2. The claim: in every listing the normalised limit lies in \<open>[1, 100]\<close>, with the
  defaults for non-numeric input. The code at \<open>GET /classes?limit=1000\<close> and
  \<open>GET /departments?limit=1000\<close> answers with limit 1000; a non-numeric limit or
  page becomes NaN there, not the default.
\<close>

theorem plus_limit_not_clamped:
  "reply (get_classes (exec (\<lambda>_. [])) (no_params\<lparr>r_limit := Some ''1000''\<rparr>)) =
     Responded 200
       (Page [] \<lparr>p_page = Num 1, p_limit = Num 1000, p_total = VInt 0, p_totalPages = Num 0\<rparr>)
   \<and> reply (get_departments (exec (\<lambda>_. [])) (no_params\<lparr>r_limit := Some ''1000''\<rparr>)) =
     Responded 200
       (Page [] \<lparr>p_page = Num 1, p_limit = Num 1000, p_total = VInt 0, p_totalPages = Num 0\<rparr>)
   \<and> limitPerPage_plus (Some ''ten'') = NaN
   \<and> currentPage_plus (Some ''first'') = NaN"
  by code_simp

section \<open>Wildcards in pattern text\<close>

text \<open>
  What the scope filters do: a text without a backslash, once escaped, matches only
  itself.
\<close>

lemma escaped_text_is_literal:
  "CHR 0x5C \<notin> set s \<Longrightarrow> like (replace_wildcards s) t = (t = s)"
proof (induction s arbitrary: t)
  case Nil
  then show ?case by simp
next
  case (Cons c s)
  then show ?case
    by (cases t) auto
qed

text \<open>
  C3. The claim: \<open>%\<close> and \<open>_\<close> of every pattern parameter, the free-text search
  included, are escaped, so they never act as wildcards. The code at
  \<open>GET /subjects?search=50%-Hub\<close>: the pattern is \<open>%50%-Hub%\<close>, and the subject
  named \<open>501-Hub\<close> is returned. The same text as the \<open>department\<close> filter is
  escaped and matches nothing. The escaping leaves a backslash of the input alone: the
  filter \<open>department=\_\<close> becomes \<open>%\\_%\<close>, whose \<open>_\<close> is a wildcard again, and
  finds the department \<open>R\D Lab\<close>.
\<close>

theorem search_text_not_escaped:
  "subjects_whereClause (no_params\<lparr>r_search := Some ''50%-Hub''\<rparr>) =
     Some (And [Or [ILike (subjects, ''name'') ''%50%-Hub%'',
                    ILike (subjects, ''code'') ''%50%-Hub%'']])
   \<and> reply (get_subjects (exec hub_db) (no_params\<lparr>r_search := Some ''50%-Hub''\<rparr>)) =
       Responded 200
         (Page [subject_row 10 1 ''501-Hub'' ''H1'' 100 @
                [(''department.id'', VInt 1), (''department.code'', VText ''HUB''),
                 (''department.name'', VText ''501-Hub''), (''department.description'', VNull),
                 (''department.createdAt'', VInt 50), (''department.updatedAt'', VInt 50)]]
            \<lparr>p_page = Num 1, p_limit = Num 10, p_total = VInt 1, p_totalPages = Num 1\<rparr>)
   \<and> reply (get_subjects (exec hub_db) (no_params\<lparr>r_department := Some ''50%-Hub''\<rparr>)) =
       Responded 200
         (Page [] \<lparr>p_page = Num 1, p_limit = Num 10, p_total = VInt 0, p_totalPages = Num 0\<rparr>)
   \<and> subjects_whereClause (no_params\<lparr>r_department := Some [CHR 0x5C, CHR ''_'']\<rparr>) =
       Some (And [ILike (departments, ''name'') [CHR ''%'', CHR 0x5C, CHR 0x5C, CHR ''_'', CHR ''%'']])
   \<and> listed_ids (get_subjects (exec lab_db)
         (no_params\<lparr>r_department := Some [CHR 0x5C, CHR ''_'']\<rparr>)) = [VInt 10]"
  by code_simp

section \<open>Roles outside teacher and student\<close>

text \<open>The role lookup, on a store with one user row per id.\<close>

lemma user_id_counts:
  "holds (qualify user r) (Eq (user, ''id'') (LStr uid)) = (map_of r ''id'' = Some (VText uid))"
proof (cases "map_of r ''id''")
  case None
  then show ?thesis
    by (simp add: cell_qualify)
next
  case (Some v)
  then show ?thesis
    by (cases v) (auto simp: cell_qualify)
qed

lemma role_scoped: "well_scoped (user_roleQuery uid)"
  by code_simp

lemma exec_user_role:
  assumes "distinct (map (\<lambda>r. map_of r ''id'') (db user))"
      and "u \<in> set (db user)"
      and "map_of u ''id'' = Some (VText uid)"
      and "map_of u ''role'' = Some role"
  shows "exec db (user_roleQuery uid) = Inr [[(''id'', VText uid), (''role'', role)]]"
proof -
  let ?q = "user_roleQuery uid"
  have f: "filter (\<lambda>r. map_of r ''id'' = map_of u ''id'') (db user) = [u]"
  proof -
    from one_row_per_key [OF assms(1) assms(2)]
    obtain x where x: "filter (\<lambda>r. map_of r ''id'' = map_of u ''id'') (db user) = [x]"
      by (auto simp: length_Suc_conv)
    moreover from assms(2) have "u \<in> set (filter (\<lambda>r. map_of r ''id'' = map_of u ''id'') (db user))"
      by simp
    ultimately show ?thesis
      by simp
  qed
  have m: "matching_rows db ?q = [qualify user u]"
    using f assms(3)
    by (simp add: matching_rows_def user_roleQuery_def select_from_def filter_map comp_def
        user_id_counts del: holds.simps)
  have g: "grouped ?q rows = map (\<lambda>e. [e]) rows" for rows
    by (simp add: grouped_def has_aggregate_def user_roleQuery_def select_from_def)
  have b: "bounds_ok ?q" "paginate ?q xs = xs" for xs :: "jrow list list"
    by (simp_all add: bounds_ok_def paginate_def user_roleQuery_def select_from_def)
  have o: "q_orderBy ?q = []"
    "q_select ?q = [(''id'', Col (user, ''id'')), (''role'', Col (user, ''role''))]"
    by (simp_all add: user_roleQuery_def select_from_def)
  show ?thesis
    using assms(3,4)
    by (simp add: exec_def role_scoped b g m o sort_desc_no_key eval_sel_def cell_qualify)
qed

lemma other_role_empty_page:
  assumes "run (user_roleQuery (r_id req)) = Inr (userRecord # others)"
      and "role_of userRecord \<noteq> VText ''teacher''"
      and "role_of userRecord \<noteq> VText ''student''"
  shows "get_user_subjects run req = respond 200 empty_envelope [user_roleQuery (r_id req)]"
    and "get_user_departments run req = respond 200 empty_envelope [user_roleQuery (r_id req)]"
  using assms by (simp_all add: get_user_subjects_def get_user_departments_def Let_def)

text \<open>
  C4. A request to \<open>GET /subjects/:id/users\<close> whose \<open>role\<close> is neither
  \<open>teacher\<close> nor \<open>student\<close> is answered 400, with no statement sent to storage. On
  \<open>GET /users/:id/subjects\<close> and \<open>GET /users/:id/departments\<close>, when the lookup finds
  a user whose role is neither of the two, the answer is 200 with an empty \<open>data\<close> and the
  envelope page 1, limit 0, total 0, totalPages 0, and nothing is logged; so it is for
  every user stored under the requested id with such a role.
\<close>

theorem unrecognised_role:
  "(r_role req \<noteq> Some ''teacher'' \<and> r_role req \<noteq> Some ''student'' \<longrightarrow>
      (\<exists>text. get_subject_users run req = respond 400 (Message ''error'' text) []))
   \<and> (run (user_roleQuery (r_id req)) = Inr (userRecord # others)
        \<and> role_of userRecord \<noteq> VText ''teacher'' \<and> role_of userRecord \<noteq> VText ''student'' \<longrightarrow>
      reply (get_user_subjects run req) =
        Responded 200
          (Page [] \<lparr>p_page = Num 1, p_limit = Num 0, p_total = VInt 0, p_totalPages = Num 0\<rparr>)
      \<and> reply (get_user_departments run req) =
        Responded 200
          (Page [] \<lparr>p_page = Num 1, p_limit = Num 0, p_total = VInt 0, p_totalPages = Num 0\<rparr>)
      \<and> logged (get_user_subjects run req) = []
      \<and> logged (get_user_departments run req) = [])
   \<and> (distinct (map (\<lambda>r. map_of r ''id'') (db user)) \<and> u \<in> set (db user)
        \<and> map_of u ''id'' = Some (VText (r_id req)) \<and> map_of u ''role'' = Some role
        \<and> role \<noteq> VText ''teacher'' \<and> role \<noteq> VText ''student'' \<longrightarrow>
      reply (get_user_subjects (exec db) req) =
        Responded 200
          (Page [] \<lparr>p_page = Num 1, p_limit = Num 0, p_total = VInt 0, p_totalPages = Num 0\<rparr>)
      \<and> reply (get_user_departments (exec db) req) =
        Responded 200
          (Page [] \<lparr>p_page = Num 1, p_limit = Num 0, p_total = VInt 0, p_totalPages = Num 0\<rparr>))"
proof (intro conjI impI)
  assume "r_role req \<noteq> Some ''teacher'' \<and> r_role req \<noteq> Some ''student''"
  then show "\<exists>text. get_subject_users run req = respond 400 (Message ''error'' text) []"
    by (cases "r_role req") (auto simp: get_subject_users_def Let_def)
next
  assume a: "run (user_roleQuery (r_id req)) = Inr (userRecord # others)
        \<and> role_of userRecord \<noteq> VText ''teacher'' \<and> role_of userRecord \<noteq> VText ''student''"
  then have s: "get_user_subjects run req =
                  respond 200 empty_envelope [user_roleQuery (r_id req)]"
    and d: "get_user_departments run req =
              respond 200 empty_envelope [user_roleQuery (r_id req)]"
    by (simp_all add: other_role_empty_page)
  show "reply (get_user_subjects run req) =
        Responded 200
          (Page [] \<lparr>p_page = Num 1, p_limit = Num 0, p_total = VInt 0, p_totalPages = Num 0\<rparr>)"
    by (simp add: s respond_def empty_envelope_def)
  show "reply (get_user_departments run req) =
        Responded 200
          (Page [] \<lparr>p_page = Num 1, p_limit = Num 0, p_total = VInt 0, p_totalPages = Num 0\<rparr>)"
    by (simp add: d respond_def empty_envelope_def)
  show "logged (get_user_subjects run req) = []"
    by (simp add: s respond_def)
  show "logged (get_user_departments run req) = []"
    by (simp add: d respond_def)
next
  assume a: "distinct (map (\<lambda>r. map_of r ''id'') (db user)) \<and> u \<in> set (db user)
        \<and> map_of u ''id'' = Some (VText (r_id req)) \<and> map_of u ''role'' = Some role
        \<and> role \<noteq> VText ''teacher'' \<and> role \<noteq> VText ''student''"
  then have found: "exec db (user_roleQuery (r_id req)) =
                      Inr [[(''id'', VText (r_id req)), (''role'', role)]]"
    using exec_user_role [of db u "r_id req" role] by blast
  have r: "role_of [(''id'', VText (r_id req)), (''role'', role)] = role"
    by (simp add: role_of_def)
  from a r
  have "get_user_subjects (exec db) req = respond 200 empty_envelope [user_roleQuery (r_id req)]"
    and "get_user_departments (exec db) req =
           respond 200 empty_envelope [user_roleQuery (r_id req)]"
    using other_role_empty_page
      [where run = "exec db" and req = req
         and userRecord = "[(''id'', VText (r_id req)), (''role'', role)]" and others = "[]"]
      found
    by simp_all
  then show "reply (get_user_subjects (exec db) req) =
        Responded 200
          (Page [] \<lparr>p_page = Num 1, p_limit = Num 0, p_total = VInt 0, p_totalPages = Num 0\<rparr>)"
    and "reply (get_user_departments (exec db) req) =
        Responded 200
          (Page [] \<lparr>p_page = Num 1, p_limit = Num 0, p_total = VInt 0, p_totalPages = Num 0\<rparr>)"
    by (simp_all add: respond_def empty_envelope_def)
qed

text \<open>
  The administrator of the scenario: \<open>role=admin\<close> on the subject's users, and the
  administrator's own subjects and departments.
\<close>

theorem unrecognised_role_witness:
  "r_role (no_params\<lparr>r_id := ''a1'', r_role := Some ''admin''\<rparr>) \<noteq> Some ''teacher''
   \<and> r_role (no_params\<lparr>r_id := ''a1'', r_role := Some ''admin''\<rparr>) \<noteq> Some ''student''
   \<and> exec scenario_db
         (user_roleQuery (r_id (no_params\<lparr>r_id := ''a1'', r_role := Some ''admin''\<rparr>)))
       = Inr [[(''id'', VText ''a1''), (''role'', VText ''admin'')]]
   \<and> role_of [(''id'', VText ''a1''), (''role'', VText ''admin'')] = VText ''admin''
   \<and> distinct (map (\<lambda>r. map_of r ''id'') (scenario_db user))
   \<and> user_row ''a1'' ''admin'' 3 \<in> set (scenario_db user)
   \<and> map_of (user_row ''a1'' ''admin'' 3) ''id'' = Some (VText ''a1'')
   \<and> map_of (user_row ''a1'' ''admin'' 3) ''role'' = Some (VText ''admin'')
   \<and> (\<exists>text. get_subject_users (exec scenario_db)
                 (no_params\<lparr>r_id := ''a1'', r_role := Some ''admin''\<rparr>)
               = respond 400 (Message ''error'' text) [])
   \<and> reply (get_user_subjects (exec scenario_db)
         (no_params\<lparr>r_id := ''a1'', r_role := Some ''admin''\<rparr>))
       = Responded 200
           (Page [] \<lparr>p_page = Num 1, p_limit = Num 0, p_total = VInt 0, p_totalPages = Num 0\<rparr>)
   \<and> reply (get_user_departments (exec scenario_db)
         (no_params\<lparr>r_id := ''a1'', r_role := Some ''admin''\<rparr>))
       = Responded 200
           (Page [] \<lparr>p_page = Num 1, p_limit = Num 0, p_total = VInt 0, p_totalPages = Num 0\<rparr>)"
proof -
  let ?rq = "no_params\<lparr>r_id := ''a1'', r_role := Some ''admin''\<rparr>"
  let ?u = "[(''id'', VText ''a1''), (''role'', VText ''admin'')]"
  let ?row = "user_row ''a1'' ''admin'' 3"
  have a: "r_role ?rq \<noteq> Some ''teacher'' \<and> r_role ?rq \<noteq> Some ''student''"
    by simp
  have b: "exec scenario_db (user_roleQuery (r_id ?rq)) = Inr [?u]"
    by code_simp
  have c: "role_of ?u = VText ''admin''"
    by code_simp
  have d: "role_of ?u \<noteq> VText ''teacher'' \<and> role_of ?u \<noteq> VText ''student''"
    unfolding c by simp
  have e: "distinct (map (\<lambda>r. map_of r ''id'') (scenario_db user))"
    "?row \<in> set (scenario_db user)"
    "map_of ?row ''id'' = Some (VText ''a1'')"
    "map_of ?row ''role'' = Some (VText ''admin'')"
    by code_simp+
  have f: "map_of ?row ''id'' = Some (VText (r_id ?rq))"
    using e(3) by (simp add: no_params_def)
  have g: "VText ''admin'' \<noteq> VText ''teacher'' \<and> VText ''admin'' \<noteq> VText ''student''"
    by simp
  note T = unrecognised_role
    [where req = ?rq and run = "exec scenario_db" and userRecord = ?u and others = "[]"
       and db = scenario_db and u = ?row and role = "VText ''admin''"]
  from T a b c d e f g show ?thesis
    by blast
qed

section \<open>An id that names no stored entity\<close>

text \<open>
  C5. The claim: a GET with a valid id that names no stored entity is answered 404, the
  listings under \<open>/subjects/:id\<close> included. The code at \<open>GET /subjects/999/classes\<close>
  and \<open>GET /subjects/999/users?role=student\<close> on the scenario, which has no subject
  999: both answer 200 with an empty page. The detail route and the user-scoped listing
  answer 404. The two listings under \<open>/subjects/:id\<close> answer 404 for no request and
  no state of storage at all.
\<close>

theorem subject_listing_without_subject:
  "reply (get_subject_classes (exec scenario_db) (no_params\<lparr>r_id := ''999''\<rparr>)) =
     Responded 200
       (Page [] \<lparr>p_page = Num 1, p_limit = Num 10, p_total = VInt 0, p_totalPages = Num 0\<rparr>)
   \<and> reply (get_subject_users (exec scenario_db)
         (no_params\<lparr>r_id := ''999'', r_role := Some ''student''\<rparr>)) =
     Responded 200
       (Page [] \<lparr>p_page = Num 1, p_limit = Num 10, p_total = VInt 0, p_totalPages = Num 0\<rparr>)
   \<and> reply (get_subject (exec scenario_db) (no_params\<lparr>r_id := ''999''\<rparr>)) =
     Responded 404 (Message ''error'' ''Subject not found.'')
   \<and> reply (get_user_subjects (exec scenario_db) (no_params\<lparr>r_id := ''nobody''\<rparr>)) =
     Responded 404 (Message ''error'' ''User not found.'')
   \<and> (\<forall>b. reply (get_subject_classes run req) \<noteq> Responded 404 b)
   \<and> (\<forall>b. reply (get_subject_users run req) \<noteq> Responded 404 b)"
proof -
  have "reply (get_subject_classes (exec scenario_db) (no_params\<lparr>r_id := ''999''\<rparr>)) =
      Responded 200
        (Page [] \<lparr>p_page = Num 1, p_limit = Num 10, p_total = VInt 0, p_totalPages = Num 0\<rparr>)"
    by code_simp
  moreover have "reply (get_subject_users (exec scenario_db)
        (no_params\<lparr>r_id := ''999'', r_role := Some ''student''\<rparr>)) =
      Responded 200
        (Page [] \<lparr>p_page = Num 1, p_limit = Num 10, p_total = VInt 0, p_totalPages = Num 0\<rparr>)"
    by code_simp
  moreover have "reply (get_subject (exec scenario_db) (no_params\<lparr>r_id := ''999''\<rparr>)) =
      Responded 404 (Message ''error'' ''Subject not found.'')"
    by code_simp
  moreover have "reply (get_user_subjects (exec scenario_db) (no_params\<lparr>r_id := ''nobody''\<rparr>)) =
      Responded 404 (Message ''error'' ''User not found.'')"
    by code_simp
  moreover have "\<forall>b. reply (get_subject_classes run req) \<noteq> Responded 404 b"
    by (auto simp: get_subject_classes_def count_then_list_def Let_def respond_def caught_def
        split: sum.splits)
  moreover have "\<forall>b. reply (get_subject_users run req) \<noteq> Responded 404 b"
    by (auto simp: get_subject_users_def count_then_list_def Let_def respond_def caught_def
        split: sum.splits option.splits)
  ultimately show ?thesis
    by blast
qed

section \<open>Errors of the storage engine\<close>

text \<open>
  C7. The claim: every endpoint catches a storage error, logs it and answers 500 with a
  body that holds no detail of the error; in particular \<open>POST /classes\<close> and
  \<open>GET /classes/:id\<close>. The code, when storage fails with any error \<open>e\<close>:
  \<open>POST /classes\<close> logs it and answers 500 with \<open>e\<close> itself as the body's
  \<open>error\<close>, and \<open>GET /classes/1\<close> writes no response and logs nothing.
  \<open>GET /classes\<close>, like the other handlers, logs it and answers 500 with a fixed text.
\<close>

theorem storage_error_leaves_classes_routes:
  "reply (post_classes (\<lambda>_. Inl e) random36 req) = Responded 500 (Failure (Storage e))
   \<and> logged (post_classes (\<lambda>_. Inl e) random36 req) = [(''POST /classes error '', Storage e)]
   \<and> get_class (\<lambda>_. Inl e) (no_params\<lparr>r_id := ''1''\<rparr>) =
       \<lparr>reply = Rejected (Storage e), logged = [], issued = [class_detailQuery (Num 1)]\<rparr>
   \<and> reply (get_classes (\<lambda>_. Inl e) req) =
       Responded 500 (Message ''errror'' ''Failed to get classes'')
   \<and> logged (get_classes (\<lambda>_. Inl e) req) = [(''GET /classes error '', Storage e)]"
proof -
  have n: "Number ''1'' = Num 1"
    by code_simp
  show ?thesis
    by (simp add: post_classes_def get_class_def get_classes_def count_then_list_def caught_def
        no_params_def n isFinite_def Let_def)
qed

section \<open>Validation before storage\<close>

text \<open>
  C8. The claim: an invalid enum value is rejected as a client error before any query
  is sent, the role filter of \<open>GET /users\<close> included. The code at
  \<open>GET /users?role=superuser\<close>, whatever storage answers: the first statement sent is
  the count query with \<open>role = 'superuser'\<close>, and the response is never 400.
\<close>

theorem users_role_reaches_storage:
  "issued (get_users run (no_params\<lparr>r_role := Some ''superuser''\<rparr>)) \<noteq> []
   \<and> hd (issued (get_users run (no_params\<lparr>r_role := Some ''superuser''\<rparr>))) =
       users_countQuery (Some (And [Eq (user, ''role'') (LStr ''superuser'')]))
   \<and> (\<forall>b. reply (get_users run (no_params\<lparr>r_role := Some ''superuser''\<rparr>)) \<noteq> Responded 400 b)"
  by (simp add: get_users_def count_then_list_def caught_def respond_def no_params_def
      users_whereClause_def pushed_def whereClause_of_def Let_def split: sum.split)

section \<open>The row POST /classes inserts\<close>





section \<open>The totals of a subject's detail\<close>









section \<open>The order of a listing\<close>

lemma count_then_list_page:
  "reply (count_then_list run cq lq cp lp label key msg sent) = Responded 200 (Page rows pg)
     \<Longrightarrow> run lq = Inr rows"
  by (auto simp: count_then_list_def caught_def respond_def envelope_def split: sum.splits)

lemma subjects_list_newest_first:
  "timestamped db subjects \<Longrightarrow> exec db (subjects_listQuery w l off) = Inr rows \<Longrightarrow> newest_first rows"
  by (rule exec_newest_first [of "subjects_listQuery w l off" db])
     (simp_all add: subjects_listQuery_def select_from_def has_aggregate_def columns_of_def
        nested_def)

lemma classes_list_newest_first:
  "timestamped db classes \<Longrightarrow> exec db (classes_listQuery w l off) = Inr rows \<Longrightarrow> newest_first rows"
  by (rule exec_newest_first [of "classes_listQuery w l off" db])
     (simp_all add: classes_listQuery_def select_from_def has_aggregate_def columns_of_def
        nested_def)

lemma users_list_newest_first:
  "timestamped db user \<Longrightarrow> exec db (users_listQuery l off) = Inr rows \<Longrightarrow> newest_first rows"
  by (rule exec_newest_first [of "users_listQuery l off" db])
     (simp_all add: users_listQuery_def select_from_def has_aggregate_def columns_of_def)

lemma subjectClasses_list_newest_first:
  "timestamped db classes \<Longrightarrow> exec db (subjectClasses_listQuery s l off) = Inr rows
     \<Longrightarrow> newest_first rows"
  by (rule exec_newest_first [of "subjectClasses_listQuery s l off" db])
     (simp_all add: subjectClasses_listQuery_def select_from_def has_aggregate_def columns_of_def
        nested_def)

lemma subjectUsers_list_newest_first:
  "timestamped db user \<Longrightarrow> exec db (subjectUsers_listQuery r s l off) = Inr rows
     \<Longrightarrow> newest_first rows"
  by (rule exec_newest_first [of "subjectUsers_listQuery r s l off" db])
     (simp_all add: subjectUsers_listQuery_def select_from_def has_aggregate_def baseSelect_def)

lemma userDepartments_list_newest_first:
  "timestamped db departments \<Longrightarrow> exec db (userDepartments_listQuery t u l off) = Inr rows
     \<Longrightarrow> newest_first rows"
  by (rule exec_newest_first [of "userDepartments_listQuery t u l off" db])
     (simp_all add: userDepartments_listQuery_def select_from_def has_aggregate_def columns_of_def)

lemma userSubjects_list_newest_first:
  "timestamped db subjects \<Longrightarrow> exec db (userSubjects_listQuery t u l off) = Inr rows
     \<Longrightarrow> newest_first rows"
  by (rule exec_newest_first [of "userSubjects_listQuery t u l off" db])
     (simp_all add: userSubjects_listQuery_def select_from_def has_aggregate_def columns_of_def
        nested_def)

lemma get_subjects_newest_first:
  "timestamped db subjects \<Longrightarrow>
   reply (get_subjects (exec db) req) = Responded 200 (Page rows pg) \<Longrightarrow> newest_first rows"
  by (auto simp: get_subjects_def Let_def dest!: count_then_list_page
      intro: subjects_list_newest_first)

lemma get_classes_newest_first:
  "timestamped db classes \<Longrightarrow>
   reply (get_classes (exec db) req) = Responded 200 (Page rows pg) \<Longrightarrow> newest_first rows"
  by (auto simp: get_classes_def Let_def dest!: count_then_list_page
      intro: classes_list_newest_first)

lemma get_users_newest_first:
  "timestamped db user \<Longrightarrow>
   reply (get_users (exec db) req) = Responded 200 (Page rows pg) \<Longrightarrow> newest_first rows"
  by (auto simp: get_users_def Let_def dest!: count_then_list_page
      intro: users_list_newest_first)

lemma get_subject_classes_newest_first:
  "timestamped db classes \<Longrightarrow>
   reply (get_subject_classes (exec db) req) = Responded 200 (Page rows pg) \<Longrightarrow> newest_first rows"
  by (auto simp: get_subject_classes_def Let_def respond_def dest!: count_then_list_page
      intro: subjectClasses_list_newest_first split: if_splits)

lemma get_subject_users_newest_first:
  "timestamped db user \<Longrightarrow>
   reply (get_subject_users (exec db) req) = Responded 200 (Page rows pg) \<Longrightarrow> newest_first rows"
  by (auto simp: get_subject_users_def Let_def respond_def dest!: count_then_list_page
      intro: subjectUsers_list_newest_first split: if_splits option.splits)

lemma get_user_departments_newest_first:
  "timestamped db departments \<Longrightarrow>
   reply (get_user_departments (exec db) req) = Responded 200 (Page rows pg) \<Longrightarrow> newest_first rows"
  by (auto simp: get_user_departments_def Let_def respond_def caught_def empty_envelope_def
      newest_first_def dest!: count_then_list_page
      intro: userDepartments_list_newest_first [unfolded newest_first_def]
      split: if_splits sum.splits list.splits)

lemma get_user_subjects_newest_first:
  "timestamped db subjects \<Longrightarrow>
   reply (get_user_subjects (exec db) req) = Responded 200 (Page rows pg) \<Longrightarrow> newest_first rows"
  by (auto simp: get_user_subjects_def Let_def respond_def caught_def empty_envelope_def
      newest_first_def dest!: count_then_list_page
      intro: userSubjects_list_newest_first [unfolded newest_first_def]
      split: if_splits sum.splits list.splits)

text \<open>
  C6, as amended. On a store whose rows carry creation times, every listing except
  \<open>GET /departments\<close> sends its rows newest first by the base entity's
  \<open>createdAt\<close>: the top-level listings of subjects, classes and users and the four
  scoped listings. The list query orders by that one key; no primary key follows it.
\<close>

theorem listings_newest_first:
  assumes "timestamped db subjects" and "timestamped db classes"
      and "timestamped db user" and "timestamped db departments"
  shows "(reply (get_subjects (exec db) req) = Responded 200 (Page rows pg)
            \<longrightarrow> newest_first rows)
       \<and> (reply (get_classes (exec db) req) = Responded 200 (Page rows pg)
            \<longrightarrow> newest_first rows)
       \<and> (reply (get_users (exec db) req) = Responded 200 (Page rows pg)
            \<longrightarrow> newest_first rows)
       \<and> (reply (get_subject_classes (exec db) req) = Responded 200 (Page rows pg)
            \<longrightarrow> newest_first rows)
       \<and> (reply (get_subject_users (exec db) req) = Responded 200 (Page rows pg)
            \<longrightarrow> newest_first rows)
       \<and> (reply (get_user_departments (exec db) req) = Responded 200 (Page rows pg)
            \<longrightarrow> newest_first rows)
       \<and> (reply (get_user_subjects (exec db) req) = Responded 200 (Page rows pg)
            \<longrightarrow> newest_first rows)
       \<and> q_orderBy (subjects_listQuery w l off) = [(subjects, ''createdAt'')]
       \<and> q_orderBy (classes_listQuery w l off) = [(classes, ''createdAt'')]
       \<and> q_orderBy (users_listQuery l off) = [(user, ''createdAt'')]
       \<and> q_orderBy (subjectClasses_listQuery n l off) = [(classes, ''createdAt'')]
       \<and> q_orderBy (subjectUsers_listQuery role n l off) = [(user, ''createdAt'')]
       \<and> q_orderBy (userDepartments_listQuery teacher u l off) = [(departments, ''createdAt'')]
       \<and> q_orderBy (userSubjects_listQuery teacher u l off) = [(subjects, ''createdAt'')]"
proof (intro conjI impI)
  show "q_orderBy (subjects_listQuery w l off) = [(subjects, ''createdAt'')]"
    by (simp add: subjects_listQuery_def select_from_def)
  show "q_orderBy (classes_listQuery w l off) = [(classes, ''createdAt'')]"
    by (simp add: classes_listQuery_def select_from_def)
  show "q_orderBy (users_listQuery l off) = [(user, ''createdAt'')]"
    by (simp add: users_listQuery_def select_from_def)
  show "q_orderBy (subjectClasses_listQuery n l off) = [(classes, ''createdAt'')]"
    by (simp add: subjectClasses_listQuery_def select_from_def)
  show "q_orderBy (subjectUsers_listQuery role n l off) = [(user, ''createdAt'')]"
    by (simp add: subjectUsers_listQuery_def select_from_def)
  show "q_orderBy (userDepartments_listQuery teacher u l off) = [(departments, ''createdAt'')]"
    by (simp add: userDepartments_listQuery_def select_from_def)
  show "q_orderBy (userSubjects_listQuery teacher u l off) = [(subjects, ''createdAt'')]"
    by (simp add: userSubjects_listQuery_def select_from_def)
qed (use assms in \<open>blast intro: get_subjects_newest_first get_classes_newest_first
      get_users_newest_first get_subject_classes_newest_first get_subject_users_newest_first
      get_user_departments_newest_first get_user_subjects_newest_first\<close>)+

text \<open>The users of the scenario, created at times 1, 2 and 3, come back as 3, 2, 1.\<close>

theorem listings_newest_first_witness:
  "timestamped scenario_db subjects \<and> timestamped scenario_db classes
   \<and> timestamped scenario_db user \<and> timestamped scenario_db departments
   \<and> reply (get_users (exec scenario_db) no_params) =
       Responded 200
         (Page [user_row ''a1'' ''admin'' 3, user_row ''s1'' ''student'' 2,
                user_row ''t1'' ''teacher'' 1]
            \<lparr>p_page = Num 1, p_limit = Num 10, p_total = VInt 3, p_totalPages = Num 1\<rparr>)
   \<and> newest_first [user_row ''a1'' ''admin'' 3, user_row ''s1'' ''student'' 2,
                    user_row ''t1'' ''teacher'' 1]"
proof -
  let ?rows = "[user_row ''a1'' ''admin'' 3, user_row ''s1'' ''student'' 2,
                user_row ''t1'' ''teacher'' 1]"
  let ?pg = "\<lparr>p_page = Num 1, p_limit = Num 10, p_total = VInt 3, p_totalPages = Num 1\<rparr>"
  have t: "timestamped scenario_db subjects" "timestamped scenario_db classes"
    "timestamped scenario_db user" "timestamped scenario_db departments"
    by code_simp+
  have r: "reply (get_users (exec scenario_db) no_params) = Responded 200 (Page ?rows ?pg)"
    by code_simp
  from listings_newest_first [OF t, of no_params ?rows ?pg] r have "newest_first ?rows"
    by blast
  with t r show ?thesis
    by blast
qed

text \<open>
  C6, as stated, fails. Two classes with the same \<open>createdAt\<close> are listed in the order
  storage holds them, so the same rows stored the other way round are listed the other
  way round: the primary key breaks no tie. \<open>GET /departments\<close> orders by
  \<open>departments.id\<close>: the department created first, with the larger id, is listed
  first.
\<close>

theorem listing_order_counterexample:
  "listed_ids (get_classes (exec tie_db) no_params) = [VInt 1, VInt 2]
   \<and> listed_ids (get_classes (exec tie_db_swapped) no_params) = [VInt 2, VInt 1]
   \<and> reply (get_departments (exec backfilled_db) no_params) =
       Responded 200
         (Page [department_row 2 ''CS'' ''Computing'' 100 @ [(''totalSubjects'', VInt 0)],
                department_row 1 ''MA'' ''Mathematics'' 200 @ [(''totalSubjects'', VInt 0)]]
            \<lparr>p_page = Num 1, p_limit = Num 10, p_total = VInt 2, p_totalPages = Num 1\<rparr>)
   \<and> \<not> newest_first
          [department_row 2 ''CS'' ''Computing'' 100 @ [(''totalSubjects'', VInt 0)],
           department_row 1 ''MA'' ''Mathematics'' 200 @ [(''totalSubjects'', VInt 0)]]
   \<and> q_orderBy (departments_listQuery None (Num 10) (Num 0)) = [(departments, ''id'')]"
  by code_simp

end
